theory Spec2Isabelle
  imports Main "HOL-Library.Word"
begin

section \<open>Values exchanged with the schema layer\<close>

text \<open>
  The repository consists of pydantic model classes. What a class does is fixed by its
  field declarations (type annotation plus \<^verbatim>\<open>Field(...)\<close> default) together with
  pydantic's validation of a raw key/value payload against such declarations. The raw
  payload is a decoded request body or the output of \<^verbatim>\<open>model_dump()\<close>: \<^verbatim>\<open>None\<close>, booleans,
  integers, text, \<^verbatim>\<open>UUID\<close> and \<^verbatim>\<open>datetime\<close> objects, lists and dictionaries with text keys.
  A payload holds no model instances (a nested entity arrives as a dictionary), no bytes
  and no floating-point numbers.
  A \<^verbatim>\<open>UUID\<close> is a 128-bit number. A \<^verbatim>\<open>datetime\<close> is naive (no \<^verbatim>\<open>tzinfo\<close>) or
  timezone-aware; the number is its reading in microseconds, for an aware one the UTC
  instant it denotes.
\<close>

type_synonym uuid = "128 word"

datatype datetime = Naive int | Aware int

text \<open>
  \<^verbatim>\<open>a <= b\<close> on two \<^verbatim>\<open>datetime\<close> objects: Python compares two naive or two aware values
  and raises \<^verbatim>\<open>TypeError\<close> when one is naive and the other aware.
\<close>

datatype exception = TypeError

fun datetime_le :: "datetime \<Rightarrow> datetime \<Rightarrow> exception + bool" where
  "datetime_le (Naive a) (Naive b) = Inr (a \<le> b)"
| "datetime_le (Aware a) (Aware b) = Inr (a \<le> b)"
| "datetime_le (Naive a) (Aware b) = Inl TypeError"
| "datetime_le (Aware a) (Naive b) = Inl TypeError"

datatype raw =
    RNone
  | RBool bool
  | RInt int
  | RStr string
  | RUuid uuid
  | RDatetime datetime
  | RList "raw list"
  | RDict "(string \<times> raw) list"

text \<open>
  A validated value. A model instance carries its class name, its fields in declaration
  order, and \<^verbatim>\<open>model_fields_set\<close>: the names of the fields that the payload supplied, as
  opposed to those filled from a default. Python is dynamically typed, so a field of an
  instance can hold any value: this matters for defaults, which pydantic stores without
  validating them.
\<close>

datatype val =
    VNone
  | VStr string
  | VUuid uuid
  | VDatetime datetime
  | VList "val list"
  | VModel (model_class: string) (model_fields: "(string \<times> val) list")
      (model_fields_set: "string list")

section \<open>Field declarations\<close>

text \<open>
  \<^verbatim>\<open>Field(...)\<close> is \<open>Required\<close>, \<^verbatim>\<open>Field(None)\<close> is \<open>Default VNone\<close>,
  \<^verbatim>\<open>Field(default_factory=f)\<close> is \<open>Default_factory f\<close> for the three factories the
  source uses: \<^verbatim>\<open>uuid4\<close>, \<^verbatim>\<open>list\<close> and \<^verbatim>\<open>datetime.utcnow\<close>.
\<close>

datatype factory = F_uuid4 | F_list | F_utcnow

datatype dflt = Required | Default val | Default_factory factory

text \<open>
  A type annotation: \<^verbatim>\<open>str\<close>, \<^verbatim>\<open>UUID\<close>, \<^verbatim>\<open>datetime\<close>, \<^verbatim>\<open>List[t]\<close>, \<^verbatim>\<open>Optional[t]\<close>, or a model
  class, given by its name and its fields in declaration order.
\<close>

datatype ftype =
    T_str
  | T_uuid
  | T_datetime
  | T_list ftype
  | T_optional ftype
  | T_model string "field list"
and field = Field (field_name: string) (field_type: ftype) (field_default: dflt)

section \<open>Validation errors\<close>

datatype loc_item = Key string | Index nat

datatype err_kind =
    missing
  | string_type
  | uuid_type
  | uuid_parsing
  | datetime_type
  | datetime_parsing
  | datetime_from_date_parsing
  | list_type
  | model_type

datatype verror = ErrorDetails (loc: "loc_item list") (kind: err_kind) (input: raw)

section \<open>The runtime: parsers, identifier generator and clock\<close>

text \<open>
  The text forms pydantic accepts for identifiers and timestamps belong to the library,
  so the parsers are parameters: \<open>datetime_parse\<close> reads a text as a naive or an aware
  \<^verbatim>\<open>datetime\<close> (depending on whether the text carries an offset) or gives the kind of
  error pydantic reports for it, \<open>datetime_of_timestamp\<close> reads an integer as a Unix
  timestamp and gives the UTC instant, which pydantic turns into an aware \<^verbatim>\<open>datetime\<close>.
  \<^verbatim>\<open>uuid4()\<close> and \<^verbatim>\<open>datetime.utcnow()\<close> are effects: the runtime holds the sequence of
  values each will return and how many have been drawn. \<^verbatim>\<open>datetime.utcnow()\<close> returns a
  naive \<^verbatim>\<open>datetime\<close>.
\<close>

record runtime =
  uuid_parse :: "string \<Rightarrow> uuid option"
  datetime_parse :: "string \<Rightarrow> err_kind + datetime"
  datetime_of_timestamp :: "int \<Rightarrow> err_kind + int"
  uuid4_values :: "nat \<Rightarrow> uuid"
  uuid4_calls :: nat
  utcnow_values :: "nat \<Rightarrow> int"
  utcnow_calls :: nat

fun call_factory :: "factory \<Rightarrow> runtime \<Rightarrow> val \<times> runtime" where
  "call_factory F_uuid4 w =
     (VUuid (uuid4_values w (uuid4_calls w)), w\<lparr>uuid4_calls := Suc (uuid4_calls w)\<rparr>)"
| "call_factory F_list w = (VList [], w)"
| "call_factory F_utcnow w =
     (VDatetime (Naive (utcnow_values w (utcnow_calls w))),
      w\<lparr>utcnow_calls := Suc (utcnow_calls w)\<rparr>)"

text \<open>
  The value of a field whose key is absent from the payload. A default is stored as it
  is: pydantic does not validate defaults (\<^verbatim>\<open>validate_default\<close> is off unless configured,
  and no class of the source configures it).
\<close>

fun get_default :: "dflt \<Rightarrow> loc_item list \<Rightarrow> (string \<times> raw) list \<Rightarrow> runtime
    \<Rightarrow> (verror list + val) \<times> runtime" where
  "get_default Required l kvs w = (Inl [ErrorDetails l missing (RDict kvs)], w)"
| "get_default (Default v) l kvs w = (Inr v, w)"
| "get_default (Default_factory f) l kvs w =
     (case call_factory f w of (v, w') \<Rightarrow> (Inr v, w'))"

section \<open>Validation of a payload against a declaration\<close>

text \<open>
  Fields are processed in declaration order and list elements in index order; errors are
  collected, not short-circuited; keys of the payload that no field declares are ignored
  (pydantic's default \<^verbatim>\<open>extra='ignore'\<close>; the \<^verbatim>\<open>model_config\<close> of every class only sets
  documentation examples). The instance records as \<^verbatim>\<open>model_fields_set\<close> the declared
  fields whose key the payload holds.
\<close>

text \<open>
  What pydantic makes of a value given for a \<^verbatim>\<open>datetime\<close> field: a \<^verbatim>\<open>datetime\<close> object is
  kept as it is, text is parsed, an integer is a Unix timestamp and gives an aware
  \<^verbatim>\<open>datetime\<close>, anything else (a boolean included) is refused.
\<close>

fun coerce_datetime :: "runtime \<Rightarrow> raw \<Rightarrow> err_kind + datetime" where
  "coerce_datetime w (RDatetime d) = Inr d"
| "coerce_datetime w (RStr s) = datetime_parse w s"
| "coerce_datetime w (RInt n) =
     (case datetime_of_timestamp w n of Inl k \<Rightarrow> Inl k | Inr i \<Rightarrow> Inr (Aware i))"
| "coerce_datetime w v = Inl datetime_type"

fun validate :: "ftype \<Rightarrow> loc_item list \<Rightarrow> raw \<Rightarrow> runtime \<Rightarrow> (verror list + val) \<times> runtime"
and validate_items :: "ftype \<Rightarrow> loc_item list \<Rightarrow> nat \<Rightarrow> raw list \<Rightarrow> runtime
    \<Rightarrow> (verror list \<times> val list) \<times> runtime"
and validate_fields :: "field list \<Rightarrow> loc_item list \<Rightarrow> (string \<times> raw) list \<Rightarrow> runtime
    \<Rightarrow> (verror list \<times> (string \<times> val) list) \<times> runtime"
where
  "validate T_str l v w =
     (case v of
        RStr s \<Rightarrow> (Inr (VStr s), w)
      | _ \<Rightarrow> (Inl [ErrorDetails l string_type v], w))"
| "validate T_uuid l v w =
     (case v of
        RUuid u \<Rightarrow> (Inr (VUuid u), w)
      | RStr s \<Rightarrow>
          (case uuid_parse w s of
             Some u \<Rightarrow> (Inr (VUuid u), w)
           | None \<Rightarrow> (Inl [ErrorDetails l uuid_parsing v], w))
      | _ \<Rightarrow> (Inl [ErrorDetails l uuid_type v], w))"
| "validate T_datetime l v w =
     (case coerce_datetime w v of
        Inr d \<Rightarrow> (Inr (VDatetime d), w)
      | Inl k \<Rightarrow> (Inl [ErrorDetails l k v], w))"
| "validate (T_list t) l v w =
     (case v of
        RList xs \<Rightarrow>
          (case validate_items t l 0 xs w of
             ((es, vs), w') \<Rightarrow> (if es = [] then Inr (VList vs) else Inl es, w'))
      | _ \<Rightarrow> (Inl [ErrorDetails l list_type v], w))"
| "validate (T_optional t) l v w =
     (case v of
        RNone \<Rightarrow> (Inr VNone, w)
      | _ \<Rightarrow> validate t l v w)"
| "validate (T_model cls fs) l v w =
     (case v of
        RDict kvs \<Rightarrow>
          (case validate_fields fs l kvs w of
             ((es, out), w') \<Rightarrow>
               (if es = []
                then Inr (VModel cls out
                            (filter (\<lambda>name. map_of kvs name \<noteq> None) (map field_name fs)))
                else Inl es, w'))
      | _ \<Rightarrow> (Inl [ErrorDetails l model_type v], w))"
| "validate_items t l i [] w = (([], []), w)"
| "validate_items t l i (x # xs) w =
     (case validate t (l @ [Index i]) x w of
        (r, w1) \<Rightarrow>
          (case validate_items t l (Suc i) xs w1 of
             ((es, vs), w2) \<Rightarrow>
               (case r of
                  Inl e \<Rightarrow> ((e @ es, vs), w2)
                | Inr y \<Rightarrow> ((es, y # vs), w2))))"
| "validate_fields [] l kvs w = (([], []), w)"
| "validate_fields (Field name t d # fs) l kvs w =
     (case (case map_of kvs name of
              Some v \<Rightarrow> validate t (l @ [Key name]) v w
            | None \<Rightarrow> get_default d (l @ [Key name]) kvs w) of
        (r, w1) \<Rightarrow>
          (case validate_fields fs l kvs w1 of
             ((es, out), w2) \<Rightarrow>
               (case r of
                  Inl e \<Rightarrow> ((e @ es, out), w2)
                | Inr y \<Rightarrow> ((es, (name, y) # out), w2))))"

definition model_validate :: "ftype \<Rightarrow> raw \<Rightarrow> runtime \<Rightarrow> (verror list + val) \<times> runtime" where
  "model_validate cls payload w = validate cls [] payload w"

text \<open>
  \<^verbatim>\<open>model_dump()\<close>: an instance becomes a dictionary of its fields, nested instances and
  lists are converted recursively, leaf values stay Python objects.
\<close>

fun model_dump :: "val \<Rightarrow> raw"
and dump_items :: "val list \<Rightarrow> raw list"
and dump_fields :: "(string \<times> val) list \<Rightarrow> (string \<times> raw) list"
where
  "model_dump VNone = RNone"
| "model_dump (VStr s) = RStr s"
| "model_dump (VUuid u) = RUuid u"
| "model_dump (VDatetime d) = RDatetime d"
| "model_dump (VList vs) = RList (dump_items vs)"
| "model_dump (VModel cls fs st) = RDict (dump_fields fs)"
| "dump_items [] = []"
| "dump_items (v # vs) = model_dump v # dump_items vs"
| "dump_fields [] = []"
| "dump_fields ((k, v) # fs) = (k, model_dump v) # dump_fields fs"

text \<open>Attribute access on an instance; \<open>None\<close> when the instance has no such attribute.\<close>

fun getattr :: "val \<Rightarrow> string \<Rightarrow> val option" where
  "getattr (VModel cls fs st) name = map_of fs name"
| "getattr _ name = None"

section \<open>The classes of \<^verbatim>\<open>models/item.py\<close>\<close>

definition ItemBase_fields :: "field list" where
  "ItemBase_fields =
     [Field ''id'' T_uuid (Default_factory F_uuid4),
      Field ''name'' T_str Required,
      Field ''ingredients'' (T_list T_str) (Default_factory F_list)]"

definition ItemBase :: ftype where
  "ItemBase = T_model ''ItemBase'' ItemBase_fields"

text \<open>\<^verbatim>\<open>class ItemCreate(ItemBase)\<close> declares no field of its own.\<close>

definition ItemCreate :: ftype where
  "ItemCreate = T_model ''ItemCreate'' ItemBase_fields"

definition ItemUpdate_fields :: "field list" where
  "ItemUpdate_fields =
     [Field ''name'' (T_optional T_str) Required,
      Field ''ingredients'' (T_optional (T_list T_str)) (Default_factory F_list)]"

definition ItemUpdate :: ftype where
  "ItemUpdate = T_model ''ItemUpdate'' ItemUpdate_fields"

text \<open>\<^verbatim>\<open>class ItemRead(ItemBase)\<close>: the inherited fields come first, then its own.\<close>

definition ItemRead_fields :: "field list" where
  "ItemRead_fields =
     ItemBase_fields @
     [Field ''created_at'' T_datetime (Default_factory F_utcnow),
      Field ''updated_at'' T_datetime (Default_factory F_utcnow)]"

definition ItemRead :: ftype where
  "ItemRead = T_model ''ItemRead'' ItemRead_fields"

section \<open>The address class\<close>

text \<open>
  Modelled from the spec: \<^verbatim>\<open>AddressBase\<close> of \<^verbatim>\<open>models/address.py\<close>, which
  \<^verbatim>\<open>models/mcdonalds.py\<close> imports and which is not among the source files. The spec
  describes it as an \<^verbatim>\<open>id\<close> plus the descriptive fields street, city, state, postal code
  and country, all required text, in the pattern of Item.
\<close>

definition AddressBase_fields :: "field list" where
  "AddressBase_fields =
     [Field ''id'' T_uuid (Default_factory F_uuid4),
      Field ''street'' T_str Required,
      Field ''city'' T_str Required,
      Field ''state'' T_str Required,
      Field ''postal_code'' T_str Required,
      Field ''country'' T_str Required]"

definition AddressBase :: ftype where
  "AddressBase = T_model ''AddressBase'' AddressBase_fields"

section \<open>The classes of \<^verbatim>\<open>models/mcdonalds.py\<close>\<close>

definition McDonaldsBase_fields :: "field list" where
  "McDonaldsBase_fields =
     [Field ''address'' AddressBase (Default_factory F_list),
      Field ''menu'' (T_list ItemBase) (Default_factory F_list)]"

definition McDonaldsBase :: ftype where
  "McDonaldsBase = T_model ''McDonaldsBase'' McDonaldsBase_fields"

definition McDonaldsCreate :: ftype where
  "McDonaldsCreate = T_model ''McDonaldsCreate'' McDonaldsBase_fields"

definition McDonaldsUpdate_fields :: "field list" where
  "McDonaldsUpdate_fields =
     [Field ''address'' (T_optional AddressBase) (Default VNone),
      Field ''menu'' (T_optional (T_list ItemBase)) (Default_factory F_list)]"

definition McDonaldsUpdate :: ftype where
  "McDonaldsUpdate = T_model ''McDonaldsUpdate'' McDonaldsUpdate_fields"

definition McDonaldsRead_fields :: "field list" where
  "McDonaldsRead_fields =
     McDonaldsBase_fields @
     [Field ''id'' T_uuid (Default_factory F_uuid4),
      Field ''created_at'' T_datetime (Default_factory F_utcnow),
      Field ''updated_at'' T_datetime (Default_factory F_utcnow)]"

definition McDonaldsRead :: ftype where
  "McDonaldsRead = T_model ''McDonaldsRead'' McDonaldsRead_fields"

section \<open>A deterministic runtime for evaluating examples\<close>

text \<open>
  A stand-in for the library and the environment, used only to evaluate examples; the
  general statements below hold for every runtime. It reads the identifier text and the
  two timestamp texts that the examples of the source use and no other text; it reads an
  integer timestamp in seconds up to \<open>2 * 10^10\<close> in absolute value and in milliseconds
  beyond, and refuses instants outside the years 1600 to 9999; \<^verbatim>\<open>uuid4\<close> returns
  1, 2, 3, ... and the clock reads 1000, 1001, 1002, ...
\<close>

definition example_runtime :: runtime where
  "example_runtime =
     \<lparr>uuid_parse = (\<lambda>s. if s = ''550e8400-e29b-41d4-a716-446655440000''
                         then Some 0x550e8400e29b41d4a716446655440000 else None),
      datetime_parse = (\<lambda>s. if s = ''2025-01-15T10:20:30Z'' then Inr (Aware 1736936430000000)
                          else if s = ''2025-01-16T12:00:00Z'' then Inr (Aware 1737028800000000)
                          else Inl datetime_from_date_parsing),
      datetime_of_timestamp =
        (\<lambda>n. let i = (if \<bar>n\<bar> \<le> 20000000000 then n * 1000000 else n * 1000)
             in if - 11676096000000000 \<le> i \<and> i \<le> 253402300799999999
                then Inr i else Inl datetime_parsing),
      uuid4_values = (\<lambda>n. of_nat (Suc n)),
      uuid4_calls = 0,
      utcnow_values = (\<lambda>n. 1000 + int n),
      utcnow_calls = 0\<rparr>"

text \<open>The example address of the source, as a payload and as the instance it validates to.\<close>

definition example_address :: raw where
  "example_address =
     RDict [(''id'', RStr ''550e8400-e29b-41d4-a716-446655440000''),
            (''street'', RStr ''600 W 125th St''),
            (''city'', RStr ''New York''),
            (''state'', RStr ''NY''),
            (''postal_code'', RStr ''10027''),
            (''country'', RStr ''US'')]"

definition example_address_instance :: val where
  "example_address_instance =
     VModel ''AddressBase''
       [(''id'', VUuid 0x550e8400e29b41d4a716446655440000),
        (''street'', VStr ''600 W 125th St''),
        (''city'', VStr ''New York''),
        (''state'', VStr ''NY''),
        (''postal_code'', VStr ''10027''),
        (''country'', VStr ''US'')]
       [''id'', ''street'', ''city'', ''state'', ''postal_code'', ''country'']"

section \<open>Auxiliary notions\<close>

text \<open>
  A declaration that never reads the clock: none of its fields, at any depth, has
  \<^verbatim>\<open>default_factory=datetime.utcnow\<close>.
\<close>

fun clock_free :: "ftype \<Rightarrow> bool"
and clock_free_fields :: "field list \<Rightarrow> bool"
where
  "clock_free T_str = True"
| "clock_free T_uuid = True"
| "clock_free T_datetime = True"
| "clock_free (T_list t) = clock_free t"
| "clock_free (T_optional t) = clock_free t"
| "clock_free (T_model cls fs) = clock_free_fields fs"
| "clock_free_fields [] = True"
| "clock_free_fields (Field name t d # fs) =
     (d \<noteq> Default_factory F_utcnow \<and> clock_free t \<and> clock_free_fields fs)"

text \<open>Two runtimes with the same parsers, identifier sequence and clock.\<close>

definition same_library :: "runtime \<Rightarrow> runtime \<Rightarrow> bool" where
  "same_library w w' \<longleftrightarrow>
     uuid_parse w' = uuid_parse w \<and> datetime_parse w' = datetime_parse w
     \<and> datetime_of_timestamp w' = datetime_of_timestamp w
     \<and> uuid4_values w' = uuid4_values w \<and> utcnow_values w' = utcnow_values w"

text \<open>Whether a payload validates as a class.\<close>

definition validates :: "ftype \<Rightarrow> raw \<Rightarrow> runtime \<Rightarrow> bool" where
  "validates cls payload w =
     (case fst (model_validate cls payload w) of Inr inst \<Rightarrow> True | Inl es \<Rightarrow> False)"

section \<open>General facts about validation\<close>

lemmas class_defs =
  model_validate_def
  ItemBase_def ItemCreate_def ItemUpdate_def ItemRead_def
  ItemBase_fields_def ItemUpdate_fields_def ItemRead_fields_def
  AddressBase_def AddressBase_fields_def
  McDonaldsBase_def McDonaldsCreate_def McDonaldsUpdate_def McDonaldsRead_def
  McDonaldsBase_fields_def McDonaldsUpdate_fields_def McDonaldsRead_fields_def

text \<open>Validating the fields of a subclass: first the inherited ones, then its own.\<close>

lemma validate_fields_append:
  "validate_fields (fs @ gs) l kvs w =
     (case validate_fields fs l kvs w of
        ((es, out), w1) \<Rightarrow>
          (case validate_fields gs l kvs w1 of
             ((es', out'), w2) \<Rightarrow> ((es @ es', out @ out'), w2)))"
proof (induction fs arbitrary: w)
  case Nil
  show ?case by (simp split: prod.splits)
next
  case (Cons f fs)
  obtain name t d where f: "f = Field name t d" by (cases f)
  show ?case
    unfolding f by (simp add: Cons.IH split: prod.splits sum.splits)
qed

text \<open>Validating a dictionary against a class, and what a successful validation returns.\<close>

lemma model_validate_dict:
  "model_validate (T_model cls fs) (RDict p) w =
     (case validate_fields fs [] p w of
        ((es, out), w') \<Rightarrow>
          (if es = []
           then Inr (VModel cls out (filter (\<lambda>name. map_of p name \<noteq> None) (map field_name fs)))
           else Inl es, w'))"
  by (simp add: model_validate_def)

lemma model_validate_InrD:
  assumes "model_validate (T_model cls fs) (RDict p) w = (Inr inst, w')"
  shows "\<exists>out. validate_fields fs [] p w = (([], out), w')
           \<and> inst = VModel cls out (filter (\<lambda>name. map_of p name \<noteq> None) (map field_name fs))"
  using assms by (auto simp: model_validate_dict split: prod.splits if_splits)

lemma map_of_append_absent:
  "k \<notin> set (map fst xs) \<Longrightarrow> map_of (xs @ ys) k = map_of ys k"
  by (simp add: map_add_def map_of_eq_None_iff [THEN iffD2] split: option.splits)

text \<open>What each leaf type accepts.\<close>

lemma validate_str_InrD:
  "validate T_str l v w = (Inr y, w') \<Longrightarrow> \<exists>s. v = RStr s \<and> y = VStr s \<and> w' = w"
  by (cases v) auto

lemma validate_uuid_InrD:
  "validate T_uuid l v w = (Inr y, w') \<Longrightarrow>
     \<exists>u. y = VUuid u \<and> w' = w \<and> (v = RUuid u \<or> (\<exists>s. v = RStr s \<and> uuid_parse w s = Some u))"
  by (cases v) (auto split: option.splits)

lemma validate_datetime_InrD:
  "validate T_datetime l v w = (Inr y, w') \<Longrightarrow>
     \<exists>d. y = VDatetime d \<and> w' = w \<and> coerce_datetime w v = Inr d"
  by (auto split: sum.splits)

lemma validate_items_str_typed:
  "validate_items T_str l i xs w = (([], vs), w') \<Longrightarrow> w' = w \<and> (\<forall>v \<in> set vs. \<exists>s. v = VStr s)"
proof (induction xs arbitrary: i vs)
  case Nil
  then show ?case by simp
next
  case (Cons x xs)
  then show ?case
    by (cases x) (auto split: prod.splits sum.splits)
qed

lemma validate_items_dump_str:
  "\<forall>v \<in> set vs. \<exists>s. v = VStr s \<Longrightarrow> validate_items T_str l i (dump_items vs) w = (([], vs), w)"
  by (induction vs arbitrary: i) auto

lemma validate_list_str_InrD:
  "validate (T_list T_str) l v w = (Inr y, w') \<Longrightarrow>
     \<exists>vs. y = VList vs \<and> w' = w \<and> (\<forall>v \<in> set vs. \<exists>s. v = VStr s)"
  by (cases v) (auto split: prod.splits if_splits dest: validate_items_str_typed)

text \<open>A failed validation reports at least one error.\<close>

lemma validate_error_nonempty:
  "validate t l v w = (Inl es, w') \<Longrightarrow> es \<noteq> []"
  and "validate (field_type f) l v w = (Inl es, w') \<Longrightarrow> es \<noteq> []"
proof (induction t and f arbitrary: l v w es w' and l v w es w')
  case T_str
  then show ?case by (cases v) auto
next
  case T_uuid
  then show ?case by (cases v) (auto split: option.splits)
next
  case T_datetime
  then show ?case by (auto split: sum.splits)
next
  case (T_list t)
  then show ?case by (cases v) (auto split: prod.splits if_splits)
next
  case (T_optional t)
  then show ?case by (cases v) auto
next
  case (T_model cls fs)
  then show ?case by (cases v) (auto split: prod.splits if_splits)
next
  case (Field name t d)
  then show ?case by simp
qed

lemma get_default_error_nonempty:
  "get_default d l kvs w = (Inl es, w') \<Longrightarrow> es \<noteq> []"
  by (cases d) (auto split: prod.splits)

text \<open>A validated instance has exactly the declared fields, in declaration order.\<close>

lemma validate_fields_names:
  "validate_fields fs l p w = (([], out), w') \<Longrightarrow> map fst out = map field_name fs"
proof (induction fs arbitrary: w out)
  case Nil
  then show ?case by simp
next
  case (Cons f fs)
  obtain name t d where f: "f = Field name t d" by (cases f)
  from Cons.prems show ?case
    unfolding f
    by (auto split: prod.splits sum.splits option.splits
        dest: Cons.IH validate_error_nonempty(1) get_default_error_nonempty)
qed

text \<open>
  Validation draws from the identifier generator and the clock; it never replaces them
  or the parsers.
\<close>

lemma same_library_refl: "same_library w w"
  by (simp add: same_library_def)

lemma same_library_trans: "same_library w w1 \<Longrightarrow> same_library w1 w2 \<Longrightarrow> same_library w w2"
  by (simp add: same_library_def)

lemma call_factory_static:
  "call_factory f w = (v, w') \<Longrightarrow> same_library w w'"
  by (cases f) (auto simp: same_library_def)

lemma get_default_static:
  "get_default d l kvs w = (r, w') \<Longrightarrow> same_library w w'"
  by (cases d) (auto simp: same_library_refl split: prod.splits dest: call_factory_static)

lemma validate_static:
  "validate t l v w = (r, w') \<Longrightarrow> same_library w w'"
  "validate_items t l i xs w = (rs, w') \<Longrightarrow> same_library w w'"
  "validate_fields fs l kvs w = (rf, w') \<Longrightarrow> same_library w w'"
proof (induction t l v w and t l i xs w and fs l kvs w arbitrary: r w' and rs w' and rf w'
       rule: validate_validate_items_validate_fields.induct)
  case (1 l v w)
  then show ?case by (cases v) (auto simp: same_library_refl)
next
  case (2 l v w)
  then show ?case by (cases v) (auto simp: same_library_refl split: option.splits)
next
  case (3 l v w)
  then show ?case by (auto simp: same_library_refl split: sum.splits)
next
  case (4 t l v w)
  show ?case
  proof (cases v)
    case (RList xs)
    with 4 show ?thesis by (auto split: prod.splits)
  qed (use 4 in \<open>auto simp: same_library_refl\<close>)
next
  case (5 t l v w)
  show ?case
  proof (cases v)
    case RNone
    with 5 show ?thesis by (auto simp: same_library_refl)
  qed (use 5 in auto)
next
  case (6 cls fs l v w)
  show ?case
  proof (cases v)
    case (RDict kvs)
    with 6 show ?thesis by (auto split: prod.splits)
  qed (use 6 in \<open>auto simp: same_library_refl\<close>)
next
  case (7 t l i w)
  then show ?case by (simp add: same_library_refl)
next
  case (8 t l i x xs w)
  obtain r1 w1 where a: "validate t (l @ [Index i]) x w = (r1, w1)"
    by (cases "validate t (l @ [Index i]) x w")
  obtain r2 w2 where b: "validate_items t l (Suc i) xs w1 = (r2, w2)"
    by (cases "validate_items t l (Suc i) xs w1")
  from "8.prems" a b have "w' = w2" by (auto split: prod.splits sum.splits)
  with same_library_trans [OF "8.IH"(1) [OF a] "8.IH"(2) [OF a [symmetric] b]]
  show ?case by simp
next
  case (9 l kvs w)
  then show ?case by (simp add: same_library_refl)
next
  case (10 name t d fs l kvs w)
  let ?step = "case map_of kvs name of
                 Some v \<Rightarrow> validate t (l @ [Key name]) v w
               | None \<Rightarrow> get_default d (l @ [Key name]) kvs w"
  obtain r1 w1 where a: "?step = (r1, w1)" by (cases ?step)
  obtain r2 w2 where b: "validate_fields fs l kvs w1 = (r2, w2)"
    by (cases "validate_fields fs l kvs w1")
  have s1: "same_library w w1"
    using a "10.IH"(1) by (auto split: option.splits dest: get_default_static)
  have s2: "same_library w1 w2"
    using "10.IH"(2) [OF a [symmetric] b] .
  from "10.prems" a b have "w' = w2" by (auto split: prod.splits sum.splits)
  with same_library_trans [OF s1 s2] show ?case by simp
qed

lemma coerce_datetime_static:
  "same_library w w' \<Longrightarrow> coerce_datetime w' v = coerce_datetime w v"
  by (cases v) (simp_all add: same_library_def)

text \<open>A declaration that never reads the clock leaves the number of clock readings alone.\<close>

lemma get_default_clock_free:
  "d \<noteq> Default_factory F_utcnow \<Longrightarrow> get_default d l kvs w = (r, w') \<Longrightarrow>
     utcnow_calls w' = utcnow_calls w"
proof (cases d)
  case (Default_factory f)
  assume "d \<noteq> Default_factory F_utcnow" "get_default d l kvs w = (r, w')"
  with Default_factory show ?thesis by (cases f) auto
qed auto

lemma validate_clock_free:
  "clock_free t \<Longrightarrow> validate t l v w = (r, w') \<Longrightarrow> utcnow_calls w' = utcnow_calls w"
  "clock_free t \<Longrightarrow> validate_items t l i xs w = (rs, w') \<Longrightarrow> utcnow_calls w' = utcnow_calls w"
  "clock_free_fields fs \<Longrightarrow> validate_fields fs l kvs w = (rf, w') \<Longrightarrow>
     utcnow_calls w' = utcnow_calls w"
proof (induction t l v w and t l i xs w and fs l kvs w arbitrary: r w' and rs w' and rf w'
       rule: validate_validate_items_validate_fields.induct)
  case (1 l v w)
  then show ?case by (cases v) auto
next
  case (2 l v w)
  then show ?case by (cases v) (auto split: option.splits)
next
  case (3 l v w)
  then show ?case by (auto split: sum.splits)
next
  case (4 t l v w)
  show ?case
  proof (cases v)
    case (RList xs)
    with 4 show ?thesis by (auto split: prod.splits)
  qed (use 4 in auto)
next
  case (5 t l v w)
  show ?case
  proof (cases v)
    case RNone
    with 5 show ?thesis by auto
  qed (use 5 in auto)
next
  case (6 cls fs l v w)
  show ?case
  proof (cases v)
    case (RDict kvs)
    with 6 show ?thesis by (auto split: prod.splits)
  qed (use 6 in auto)
next
  case (7 t l i w)
  then show ?case by simp
next
  case (8 t l i x xs w)
  obtain r1 w1 where a: "validate t (l @ [Index i]) x w = (r1, w1)"
    by (cases "validate t (l @ [Index i]) x w")
  obtain r2 w2 where b: "validate_items t l (Suc i) xs w1 = (r2, w2)"
    by (cases "validate_items t l (Suc i) xs w1")
  from "8.prems" a b have "w' = w2" by (auto split: prod.splits sum.splits)
  with "8.IH"(1) [OF "8.prems"(1) a] "8.IH"(2) [OF a [symmetric] "8.prems"(1) b]
  show ?case by simp
next
  case (9 l kvs w)
  then show ?case by simp
next
  case (10 name t d fs l kvs w)
  let ?step = "case map_of kvs name of
                 Some v \<Rightarrow> validate t (l @ [Key name]) v w
               | None \<Rightarrow> get_default d (l @ [Key name]) kvs w"
  from "10.prems"(1) have cf: "d \<noteq> Default_factory F_utcnow" "clock_free t" "clock_free_fields fs"
    by simp_all
  obtain r1 w1 where a: "?step = (r1, w1)" by (cases ?step)
  obtain r2 w2 where b: "validate_fields fs l kvs w1 = (r2, w2)"
    by (cases "validate_fields fs l kvs w1")
  have s1: "utcnow_calls w1 = utcnow_calls w"
    using a "10.IH"(1) cf(1,2) by (auto split: option.splits dest: get_default_clock_free)
  have s2: "utcnow_calls w2 = utcnow_calls w1"
    using "10.IH"(2) [OF a [symmetric] cf(3) b] .
  from "10.prems"(2) a b have "w' = w2" by (auto split: prod.splits sum.splits)
  with s1 s2 show ?case by simp
qed

text \<open>One step of a successful validation: the first declared field and the rest.\<close>

lemma validate_fields_Cons_InrD:
  assumes "validate_fields (Field name t d # fs) l p w = (([], out), w')"
  shows "\<exists>y w1 out'. out = (name, y) # out' \<and> validate_fields fs l p w1 = (([], out'), w')
           \<and> (case map_of p name of
                 Some v \<Rightarrow> validate t (l @ [Key name]) v w = (Inr y, w1)
               | None \<Rightarrow> get_default d (l @ [Key name]) p w = (Inr y, w1))"
  using assms
  by (auto simp del: validate.simps get_default.simps
      split: prod.splits sum.splits option.splits
      dest: validate_error_nonempty(1) get_default_error_nonempty)

text \<open>The shape of a validated Item.\<close>

lemma ItemBase_fields_InrD:
  assumes "validate_fields ItemBase_fields l p w = (([], out), w1)"
  shows "\<exists>u n vs. out = [(''id'', VUuid u), (''name'', VStr n), (''ingredients'', VList vs)]
           \<and> (\<forall>v \<in> set vs. \<exists>s. v = VStr s)
           \<and> utcnow_calls w1 = utcnow_calls w \<and> utcnow_values w1 = utcnow_values w"
proof -
  from assms [unfolded ItemBase_fields_def] obtain y1 wa o1 where
    1: "out = (''id'', y1) # o1"
    and r1: "validate_fields
               [Field ''name'' T_str Required,
                Field ''ingredients'' (T_list T_str) (Default_factory F_list)] l p wa
             = (([], o1), w1)"
    and v1: "case map_of p ''id'' of
               Some v \<Rightarrow> validate T_uuid (l @ [Key ''id'']) v w = (Inr y1, wa)
             | None \<Rightarrow> get_default (Default_factory F_uuid4) (l @ [Key ''id'']) p w = (Inr y1, wa)"
    by (blast dest: validate_fields_Cons_InrD)
  from r1 obtain y2 wb o2 where
    2: "o1 = (''name'', y2) # o2"
    and r2: "validate_fields
               [Field ''ingredients'' (T_list T_str) (Default_factory F_list)] l p wb
             = (([], o2), w1)"
    and v2: "case map_of p ''name'' of
               Some v \<Rightarrow> validate T_str (l @ [Key ''name'']) v wa = (Inr y2, wb)
             | None \<Rightarrow> get_default Required (l @ [Key ''name'']) p wa = (Inr y2, wb)"
    by (blast dest: validate_fields_Cons_InrD)
  from r2 obtain y3 wc o3 where
    3: "o2 = (''ingredients'', y3) # o3"
    and r3: "validate_fields [] l p wc = (([], o3), w1)"
    and v3: "case map_of p ''ingredients'' of
               Some v \<Rightarrow> validate (T_list T_str) (l @ [Key ''ingredients'']) v wb = (Inr y3, wc)
             | None \<Rightarrow> get_default (Default_factory F_list) (l @ [Key ''ingredients'']) p wb
                         = (Inr y3, wc)"
    by (blast dest: validate_fields_Cons_InrD)
  from v1 obtain u where u: "y1 = VUuid u"
    and wa: "utcnow_calls wa = utcnow_calls w \<and> utcnow_values wa = utcnow_values w"
    by (auto simp del: validate.simps split: option.splits dest: validate_uuid_InrD)
  from v2 obtain n where n: "y2 = VStr n" and wb: "wb = wa"
    by (auto simp del: validate.simps split: option.splits dest: validate_str_InrD)
  from v3 obtain vs where vs: "y3 = VList vs" "\<forall>v \<in> set vs. \<exists>s. v = VStr s"
    and wc: "wc = wb"
    by (auto simp del: validate.simps split: option.splits dest: validate_list_str_InrD)
  from r3 have "o3 = []" and "w1 = wc" by simp_all
  with 1 2 3 u n vs wa wb wc show ?thesis by simp
qed

lemma validate_fields_append_InrD:
  assumes "validate_fields (fs @ gs) l p w = (([], out), w')"
  shows "\<exists>o1 o2 w1. validate_fields fs l p w = (([], o1), w1)
           \<and> validate_fields gs l p w1 = (([], o2), w') \<and> out = o1 @ o2"
proof -
  obtain e1 o1 w1 where a: "validate_fields fs l p w = ((e1, o1), w1)"
    by (metis prod.exhaust)
  obtain e2 o2 w2 where b: "validate_fields gs l p w1 = ((e2, o2), w2)"
    by (metis prod.exhaust)
  from assms have "e1 = [] \<and> e2 = [] \<and> out = o1 @ o2 \<and> w2 = w'"
    by (simp add: validate_fields_append a b)
  with a b show ?thesis by simp
qed

lemma timestamp_fields_InrD:
  assumes "validate_fields
             [Field ''created_at'' T_datetime (Default_factory F_utcnow),
              Field ''updated_at'' T_datetime (Default_factory F_utcnow)] l p w1
           = (([], out), w2)"
  shows "\<exists>c d. out = [(''created_at'', VDatetime c), (''updated_at'', VDatetime d)]"
proof -
  from assms obtain y1 wa o1 where
    1: "out = (''created_at'', y1) # o1"
    and r1: "validate_fields [Field ''updated_at'' T_datetime (Default_factory F_utcnow)] l p wa
             = (([], o1), w2)"
    and v1: "case map_of p ''created_at'' of
               Some v \<Rightarrow> validate T_datetime (l @ [Key ''created_at'']) v w1 = (Inr y1, wa)
             | None \<Rightarrow> get_default (Default_factory F_utcnow) (l @ [Key ''created_at'']) p w1
                         = (Inr y1, wa)"
    by (blast dest: validate_fields_Cons_InrD)
  from r1 obtain y2 wb o2 where
    2: "o1 = (''updated_at'', y2) # o2"
    and r2: "validate_fields [] l p wb = (([], o2), w2)"
    and v2: "case map_of p ''updated_at'' of
               Some v \<Rightarrow> validate T_datetime (l @ [Key ''updated_at'']) v wa = (Inr y2, wb)
             | None \<Rightarrow> get_default (Default_factory F_utcnow) (l @ [Key ''updated_at'']) p wa
                         = (Inr y2, wb)"
    by (blast dest: validate_fields_Cons_InrD)
  from v1 obtain c where c: "y1 = VDatetime c"
    by (auto simp del: validate.simps split: option.splits dest: validate_datetime_InrD)
  from v2 obtain d where d: "y2 = VDatetime d"
    by (auto simp del: validate.simps split: option.splits dest: validate_datetime_InrD)
  from r2 have "o2 = []" by simp
  with 1 2 c d show ?thesis by simp
qed

lemma example_address_valid:
  "validate AddressBase l example_address (example_runtime\<lparr>uuid4_calls := i, utcnow_calls := j\<rparr>)
     = (Inr example_address_instance, example_runtime\<lparr>uuid4_calls := i, utcnow_calls := j\<rparr>)"
  by (simp add: AddressBase_def AddressBase_fields_def example_address_def
      example_address_instance_def example_runtime_def)

lemma example_address_valid0:
  "validate AddressBase l example_address example_runtime
     = (Inr example_address_instance, example_runtime)"
  using example_address_valid [of l 0 0] by (simp add: example_runtime_def)

lemma example_runtime_simps:
  "uuid4_values example_runtime i = of_nat (Suc i)"
  "uuid4_calls example_runtime = 0"
  "utcnow_values example_runtime i = 1000 + int i"
  "uuid_parse example_runtime ''550e8400-e29b-41d4-a716-446655440000''
     = Some 0x550e8400e29b41d4a716446655440000"
  "utcnow_calls example_runtime = 0"
  by (simp_all add: example_runtime_def)

lemmas location_defs =
  model_validate_def
  McDonaldsBase_def McDonaldsCreate_def McDonaldsUpdate_def McDonaldsRead_def
  McDonaldsBase_fields_def McDonaldsUpdate_fields_def McDonaldsRead_fields_def

lemma validate_str_not_text:
  "\<forall>s. v \<noteq> RStr s \<Longrightarrow> validate T_str l v w = (Inl [ErrorDetails l string_type v], w)"
  by (cases v) auto

text \<open>Where the errors of a rejected Item payload are located.\<close>

lemma validate_str_InlD:
  "validate T_str l v w = (Inl es, w') \<Longrightarrow> es = [ErrorDetails l string_type v]"
  by (cases v) auto

lemma validate_uuid_InlD:
  "validate T_uuid l v w = (Inl es, w') \<Longrightarrow> \<exists>k. es = [ErrorDetails l k v]"
  by (cases v) (auto split: option.splits)

lemma validate_optional_str_InlD:
  "validate (T_optional T_str) l v w = (Inl es, w') \<Longrightarrow> es = [ErrorDetails l string_type v]"
  by (cases v) auto

lemma ItemCreate_errors_absent_ingredients:
  assumes "map_of p ''ingredients'' = None"
    and "model_validate ItemCreate (RDict p) w = (Inl es, w')"
  shows "\<forall>e \<in> set es. loc e = [Key ''id''] \<or> loc e = [Key ''name'']"
  using assms
  by (auto simp: model_validate_dict ItemCreate_def ItemBase_fields_def
      simp del: validate.simps
      split: prod.splits sum.splits option.splits if_splits
      dest!: validate_str_InlD validate_uuid_InlD)

lemma ItemUpdate_errors_absent_ingredients:
  assumes "map_of p ''ingredients'' = None"
    and "model_validate ItemUpdate (RDict p) w = (Inl es, w')"
  shows "\<forall>e \<in> set es. loc e = [Key ''name'']"
  using assms
  by (auto simp: model_validate_dict ItemUpdate_def ItemUpdate_fields_def
      simp del: validate.simps
      split: prod.splits sum.splits option.splits if_splits
      dest!: validate_optional_str_InlD)


text \<open>Classes that end in the two timestamp fields.\<close>

lemma validates_dict:
  "validates (T_model cls fs) (RDict p) w \<longleftrightarrow> fst (fst (validate_fields fs [] p w)) = []"
  by (simp add: validates_def model_validate_def split: prod.splits)

lemma validate_fields_snoc_timestamp:
  "validate_fields (fs @ [Field k T_datetime (Default_factory F_utcnow)]) l p w =
     (case validate_fields fs l p w of
        ((e1, o1), w1) \<Rightarrow>
          (case map_of p k of
             None \<Rightarrow>
               ((e1, o1 @ [(k, VDatetime (Naive (utcnow_values w1 (utcnow_calls w1))))]),
                w1\<lparr>utcnow_calls := Suc (utcnow_calls w1)\<rparr>)
           | Some v \<Rightarrow>
               (case coerce_datetime w1 v of
                  Inr d \<Rightarrow> ((e1, o1 @ [(k, VDatetime d)]), w1)
                | Inl kd \<Rightarrow> ((e1 @ [ErrorDetails (l @ [Key k]) kd v], o1), w1))))"
  by (simp add: validate_fields_append split: prod.splits option.splits sum.splits)

lemma Read_timestamp_fields:
  assumes cf: "clock_free_fields pre"
    and n1: "''created_at'' \<notin> set (map field_name pre)"
    and n2: "''updated_at'' \<notin> set (map field_name pre)"
    and v: "validate_fields
             (pre @ [Field ''created_at'' T_datetime (Default_factory F_utcnow),
                     Field ''updated_at'' T_datetime (Default_factory F_utcnow)]) l p w
           = (([], out), w')"
  shows "\<exists>c u. map_of out ''created_at'' = Some (VDatetime c)
         \<and> map_of out ''updated_at'' = Some (VDatetime u)
         \<and> (case map_of p ''created_at'' of
               None \<Rightarrow> c = Naive (utcnow_values w (utcnow_calls w))
             | Some x \<Rightarrow> coerce_datetime w x = Inr c)
         \<and> (case map_of p ''updated_at'' of
               None \<Rightarrow> u = Naive (utcnow_values w
                                (if map_of p ''created_at'' = None then Suc (utcnow_calls w)
                                 else utcnow_calls w))
             | Some x \<Rightarrow> coerce_datetime w x = Inr u)"
proof -
  obtain e1 o1 w1 where a: "validate_fields pre l p w = ((e1, o1), w1)"
    by (metis prod.exhaust)
  from validate_static(3) [OF a] have lib: "same_library w w1" .
  then have uv: "utcnow_values w1 = utcnow_values w" by (simp add: same_library_def)
  from validate_clock_free(3) [OF cf a] have uc: "utcnow_calls w1 = utcnow_calls w" .
  have co: "coerce_datetime w1 x = coerce_datetime w x" for x
    by (rule coerce_datetime_static [OF lib])
  have co': "coerce_datetime (w1\<lparr>utcnow_calls := n\<rparr>) x = coerce_datetime w x" for x n
    by (rule coerce_datetime_static) (use lib in \<open>simp add: same_library_def\<close>)
  have split: "pre @ [Field ''created_at'' T_datetime (Default_factory F_utcnow),
                     Field ''updated_at'' T_datetime (Default_factory F_utcnow)]
      = (pre @ [Field ''created_at'' T_datetime (Default_factory F_utcnow)])
        @ [Field ''updated_at'' T_datetime (Default_factory F_utcnow)]"
    by simp
  from v have e1: "e1 = []"
    unfolding split validate_fields_snoc_timestamp a
    by (auto split: option.splits sum.splits)
  from a e1 have names: "map fst o1 = map field_name pre"
    by (simp add: validate_fields_names)
  with n1 n2 have k: "''created_at'' \<notin> set (map fst o1)" "''updated_at'' \<notin> set (map fst o1)"
    by simp_all
  from v obtain c u where out: "out = o1 @ [(''created_at'', VDatetime c), (''updated_at'', VDatetime u)]"
    and c: "case map_of p ''created_at'' of
               None \<Rightarrow> c = Naive (utcnow_values w (utcnow_calls w))
             | Some x \<Rightarrow> coerce_datetime w x = Inr c"
    and u: "case map_of p ''updated_at'' of
               None \<Rightarrow> u = Naive (utcnow_values w
                                (if map_of p ''created_at'' = None then Suc (utcnow_calls w)
                                 else utcnow_calls w))
             | Some x \<Rightarrow> coerce_datetime w x = Inr u"
    unfolding split validate_fields_snoc_timestamp a
    by (auto simp: co co' uv uc split: option.splits sum.splits)
  have "map_of out ''created_at'' = Some (VDatetime c)"
    "map_of out ''updated_at'' = Some (VDatetime u)"
    unfolding out map_of_append_absent [OF k(1)] map_of_append_absent [OF k(2)] by simp_all
  with c u show ?thesis by blast
qed

lemma Read_timestamp_fields_ok:
  assumes n1: "''created_at'' \<notin> set (map field_name pre)"
    and n2: "''updated_at'' \<notin> set (map field_name pre)"
  shows "fst (fst (validate_fields
             (pre @ [Field ''created_at'' T_datetime (Default_factory F_utcnow),
                     Field ''updated_at'' T_datetime (Default_factory F_utcnow)]) l p w)) = []
     \<longleftrightarrow> fst (fst (validate_fields pre l p w)) = []
         \<and> (\<forall>x. map_of p ''created_at'' = Some x \<longrightarrow> (\<exists>d. coerce_datetime w x = Inr d))
         \<and> (\<forall>x. map_of p ''updated_at'' = Some x \<longrightarrow> (\<exists>d. coerce_datetime w x = Inr d))"
proof -
  obtain e1 o1 w1 where a: "validate_fields pre l p w = ((e1, o1), w1)"
    by (metis prod.exhaust)
  from validate_static(3) [OF a] have lib: "same_library w w1" .
  have co: "coerce_datetime w1 x = coerce_datetime w x" for x
    by (rule coerce_datetime_static [OF lib])
  have co': "coerce_datetime (w1\<lparr>utcnow_calls := n\<rparr>) x = coerce_datetime w x" for x n
    by (rule coerce_datetime_static) (use lib in \<open>simp add: same_library_def\<close>)
  have split: "pre @ [Field ''created_at'' T_datetime (Default_factory F_utcnow),
                     Field ''updated_at'' T_datetime (Default_factory F_utcnow)]
      = (pre @ [Field ''created_at'' T_datetime (Default_factory F_utcnow)])
        @ [Field ''updated_at'' T_datetime (Default_factory F_utcnow)]"
    by simp
  show ?thesis
    unfolding split validate_fields_snoc_timestamp a
    by (auto simp: co co' split: option.splits sum.splits)
qed

text \<open>When an Item Create payload without ingredients validates.\<close>

lemma ItemCreate_validates_iff:
  assumes "map_of p ''ingredients'' = None"
  shows "validates ItemCreate (RDict p) w
     \<longleftrightarrow> (\<exists>n. map_of p ''name'' = Some (RStr n))
         \<and> (\<forall>x. map_of p ''id'' = Some x
              \<longrightarrow> (\<exists>u. x = RUuid u) \<or> (\<exists>s u. x = RStr s \<and> uuid_parse w s = Some u))"
proof -
  have name: "(\<exists>y w'. validate T_str l x w1 = (Inr y, w')) \<longleftrightarrow> (\<exists>n. x = RStr n)" for l x w1
    by (cases x) auto
  show ?thesis
  proof (cases "map_of p ''id''")
    case None
    with assms show ?thesis
      by (cases "map_of p ''name''")
        (auto simp: validates_dict ItemCreate_def ItemBase_fields_def
          split: prod.splits sum.splits raw.splits)
  next
    case (Some x)
    with assms show ?thesis
      by (cases "map_of p ''name''"; cases x)
        (auto simp: validates_dict ItemCreate_def ItemBase_fields_def
          split: prod.splits sum.splits raw.splits option.splits)
  qed
qed

text \<open>The two Read classes.\<close>

lemma validate_fields_snoc_uuid_ok:
  "fst (fst (validate_fields (fs @ [Field k T_uuid (Default_factory F_uuid4)]) l p w)) = []
     \<longleftrightarrow> fst (fst (validate_fields fs l p w)) = []
         \<and> (\<forall>x. map_of p k = Some x
               \<longrightarrow> (\<exists>u. x = RUuid u) \<or> (\<exists>s u. x = RStr s \<and> uuid_parse w s = Some u))"
proof -
  obtain e1 o1 w1 where a: "validate_fields fs l p w = ((e1, o1), w1)"
    by (metis prod.exhaust)
  from validate_static(3) [OF a] have up: "uuid_parse w1 = uuid_parse w"
    by (simp add: same_library_def)
  show ?thesis
  proof (cases "map_of p k")
    case None
    then show ?thesis by (simp add: validate_fields_append a split: prod.splits)
  next
    case (Some x)
    then show ?thesis
      by (cases x) (auto simp: validate_fields_append a up split: prod.splits option.splits)
  qed
qed

lemma McDonaldsRead_fields_split:
  "McDonaldsRead_fields =
     (McDonaldsBase_fields @ [Field ''id'' T_uuid (Default_factory F_uuid4)]) @
     [Field ''created_at'' T_datetime (Default_factory F_utcnow),
      Field ''updated_at'' T_datetime (Default_factory F_utcnow)]"
  by (simp add: McDonaldsRead_fields_def)

lemma Read_classes:
  assumes "cls = ItemRead \<or> cls = McDonaldsRead"
  obtains name pre where
    "cls = T_model name
             (pre @ [Field ''created_at'' T_datetime (Default_factory F_utcnow),
                     Field ''updated_at'' T_datetime (Default_factory F_utcnow)])"
    "clock_free_fields pre"
    "''created_at'' \<notin> set (map field_name pre)"
    "''updated_at'' \<notin> set (map field_name pre)"
  using assms
proof
  assume "cls = ItemRead"
  then show thesis
    using that [of "''ItemRead''" ItemBase_fields]
    by (simp add: ItemRead_def ItemRead_fields_def ItemBase_fields_def)
next
  assume "cls = McDonaldsRead"
  then show thesis
    using that [of "''McDonaldsRead''"
                   "McDonaldsBase_fields @ [Field ''id'' T_uuid (Default_factory F_uuid4)]"]
    by (simp add: McDonaldsRead_def McDonaldsRead_fields_split McDonaldsBase_fields_def
        ItemBase_def ItemBase_fields_def AddressBase_def AddressBase_fields_def)
qed

lemma Read_instance_timestamps:
  assumes cls: "cls = ItemRead \<or> cls = McDonaldsRead"
    and v: "model_validate cls (RDict p) w = (Inr inst, w')"
  shows "\<exists>c u. getattr inst ''created_at'' = Some (VDatetime c)
         \<and> getattr inst ''updated_at'' = Some (VDatetime u)
         \<and> (case map_of p ''created_at'' of
               None \<Rightarrow> c = Naive (utcnow_values w (utcnow_calls w))
             | Some x \<Rightarrow> coerce_datetime w x = Inr c)
         \<and> (case map_of p ''updated_at'' of
               None \<Rightarrow> u = Naive (utcnow_values w
                                (if map_of p ''created_at'' = None then Suc (utcnow_calls w)
                                 else utcnow_calls w))
             | Some x \<Rightarrow> coerce_datetime w x = Inr u)"
proof -
  from cls obtain name pre where
    c: "cls = T_model name
             (pre @ [Field ''created_at'' T_datetime (Default_factory F_utcnow),
                     Field ''updated_at'' T_datetime (Default_factory F_utcnow)])"
    and cf: "clock_free_fields pre"
    and n1: "''created_at'' \<notin> set (map field_name pre)"
    and n2: "''updated_at'' \<notin> set (map field_name pre)"
    by (rule Read_classes)
  from model_validate_InrD [OF v [unfolded c]] obtain out st where
    f: "validate_fields
             (pre @ [Field ''created_at'' T_datetime (Default_factory F_utcnow),
                     Field ''updated_at'' T_datetime (Default_factory F_utcnow)]) [] p w
           = (([], out), w')"
    and inst: "inst = VModel name out st"
    by blast
  from Read_timestamp_fields [OF cf n1 n2 f] show ?thesis
    unfolding inst by simp
qed

lemma ItemRead_validates_iff:
  "validates ItemRead (RDict p) w
     \<longleftrightarrow> validates ItemBase (RDict p) w
         \<and> (\<forall>x. map_of p ''created_at'' = Some x \<longrightarrow> (\<exists>d. coerce_datetime w x = Inr d))
         \<and> (\<forall>x. map_of p ''updated_at'' = Some x \<longrightarrow> (\<exists>d. coerce_datetime w x = Inr d))"
  unfolding ItemRead_def ItemBase_def validates_dict ItemRead_fields_def
  by (rule Read_timestamp_fields_ok) (simp_all add: ItemBase_fields_def)

lemma McDonaldsRead_validates_iff:
  "validates McDonaldsRead (RDict p) w
     \<longleftrightarrow> validates McDonaldsBase (RDict p) w
         \<and> (\<forall>x. map_of p ''id'' = Some x
               \<longrightarrow> (\<exists>u. x = RUuid u) \<or> (\<exists>s u. x = RStr s \<and> uuid_parse w s = Some u))
         \<and> (\<forall>x. map_of p ''created_at'' = Some x \<longrightarrow> (\<exists>d. coerce_datetime w x = Inr d))
         \<and> (\<forall>x. map_of p ''updated_at'' = Some x \<longrightarrow> (\<exists>d. coerce_datetime w x = Inr d))"
proof -
  have "fst (fst (validate_fields McDonaldsRead_fields [] p w)) = []
     \<longleftrightarrow> fst (fst (validate_fields
                      (McDonaldsBase_fields @ [Field ''id'' T_uuid (Default_factory F_uuid4)])
                      [] p w)) = []
         \<and> (\<forall>x. map_of p ''created_at'' = Some x \<longrightarrow> (\<exists>d. coerce_datetime w x = Inr d))
         \<and> (\<forall>x. map_of p ''updated_at'' = Some x \<longrightarrow> (\<exists>d. coerce_datetime w x = Inr d))"
    unfolding McDonaldsRead_fields_split
    by (rule Read_timestamp_fields_ok) (simp_all add: McDonaldsBase_fields_def)
  then show ?thesis
    unfolding McDonaldsRead_def McDonaldsBase_def validates_dict validate_fields_snoc_uuid_ok
    by blast
qed

section \<open>Item: the Update variant\<close>

text \<open>
  Claim C1. Every domain field of an Update variant is optional: validating an Item Update
  payload that omits \<^verbatim>\<open>name\<close> succeeds. The class declares
  \<^verbatim>\<open>name: Optional[str] = Field(...)\<close>, which makes the field nullable but required, so the
  update payload \<^verbatim>\<open>{"ingredients": ["Mac Sauce"]}\<close> is rejected with a \<^verbatim>\<open>missing\<close> error
  for \<^verbatim>\<open>name\<close>.
\<close>

theorem ItemUpdate_without_name_fails:
  "fst (model_validate ItemUpdate (RDict [(''ingredients'', RList [RStr ''Mac Sauce''])])
          example_runtime)
   = Inl [ErrorDetails [Key ''name''] missing
            (RDict [(''ingredients'', RList [RStr ''Mac Sauce''])])]"
  by (simp add: class_defs)

section \<open>Item: the default of an absent ingredient list\<close>

text \<open>
  A payload without \<^verbatim>\<open>ingredients\<close> does not validate whatever else it holds: the empty
  Create payload is rejected, because \<^verbatim>\<open>name\<close> is required.
\<close>

theorem absent_ingredients_counterexample:
  "map_of ([] :: (string \<times> raw) list) ''ingredients'' = None
   \<and> fst (model_validate ItemCreate (RDict []) example_runtime)
       = Inl [ErrorDetails [Key ''name''] missing (RDict [])]"
  by (simp add: class_defs)

text \<open>
  Claim C2, as amended. When a payload has no \<^verbatim>\<open>ingredients\<close> key, the absence is not an
  error and the default is the empty list, never \<^verbatim>\<open>None\<close>: every instance that Item Create
  or Item Update validation produces from such a payload has \<^verbatim>\<open>ingredients = []\<close>; every
  error reported for such a payload is located at another field (\<^verbatim>\<open>id\<close> or \<^verbatim>\<open>name\<close>); an
  Item Create payload without \<^verbatim>\<open>ingredients\<close> validates exactly when its \<^verbatim>\<open>name\<close> is text
  and its \<^verbatim>\<open>id\<close> is absent or a valid identifier; an Item Update payload without
  \<^verbatim>\<open>ingredients\<close> validates whenever its \<^verbatim>\<open>name\<close> is given, as text or as \<^verbatim>\<open>None\<close>.
\<close>

theorem absent_ingredients_default_empty:
  assumes "map_of p ''ingredients'' = None"
  shows "(\<forall>inst w'. model_validate ItemCreate (RDict p) w = (Inr inst, w')
            \<longrightarrow> getattr inst ''ingredients'' = Some (VList []))
       \<and> (\<forall>inst w'. model_validate ItemUpdate (RDict p) w = (Inr inst, w')
            \<longrightarrow> getattr inst ''ingredients'' = Some (VList []))
       \<and> (\<forall>es w'. model_validate ItemCreate (RDict p) w = (Inl es, w')
            \<longrightarrow> (\<forall>e \<in> set es. loc e = [Key ''id''] \<or> loc e = [Key ''name'']))
       \<and> (\<forall>es w'. model_validate ItemUpdate (RDict p) w = (Inl es, w')
            \<longrightarrow> (\<forall>e \<in> set es. loc e = [Key ''name'']))
       \<and> (validates ItemCreate (RDict p) w
            \<longleftrightarrow> (\<exists>n. map_of p ''name'' = Some (RStr n))
                \<and> (\<forall>x. map_of p ''id'' = Some x
                      \<longrightarrow> (\<exists>u. x = RUuid u) \<or> (\<exists>s u. x = RStr s \<and> uuid_parse w s = Some u)))
       \<and> (\<forall>x. map_of p ''name'' = Some x \<longrightarrow> x = RNone \<or> (\<exists>n. x = RStr n)
            \<longrightarrow> validates ItemUpdate (RDict p) w)
       \<and> (\<forall>n. map_of p ''name'' = Some (RStr n) \<longrightarrow> map_of p ''id'' = None
            \<longrightarrow> fst (model_validate ItemCreate (RDict p) w)
                = Inr (VModel ''ItemCreate''
                        [(''id'', VUuid (uuid4_values w (uuid4_calls w))),
                         (''name'', VStr n), (''ingredients'', VList [])]
                        [''name'']))
       \<and> (\<forall>n. map_of p ''name'' = Some (RStr n)
            \<longrightarrow> fst (model_validate ItemUpdate (RDict p) w)
                = Inr (VModel ''ItemUpdate''
                        [(''name'', VStr n), (''ingredients'', VList [])]
                        [''name'']))"
proof (intro conjI allI impI)
  fix inst w'
  assume "model_validate ItemCreate (RDict p) w = (Inr inst, w')"
  with assms show "getattr inst ''ingredients'' = Some (VList [])"
    by (auto simp: class_defs split: option.splits prod.splits sum.splits if_splits)
next
  fix inst w'
  assume "model_validate ItemUpdate (RDict p) w = (Inr inst, w')"
  with assms show "getattr inst ''ingredients'' = Some (VList [])"
    by (auto simp: class_defs split: option.splits prod.splits sum.splits if_splits)
next
  fix es w'
  assume "model_validate ItemCreate (RDict p) w = (Inl es, w')"
  with assms show "\<forall>e \<in> set es. loc e = [Key ''id''] \<or> loc e = [Key ''name'']"
    by (rule ItemCreate_errors_absent_ingredients)
next
  fix es w'
  assume "model_validate ItemUpdate (RDict p) w = (Inl es, w')"
  with assms show "\<forall>e \<in> set es. loc e = [Key ''name'']"
    by (rule ItemUpdate_errors_absent_ingredients)
next
  from assms show "validates ItemCreate (RDict p) w
            \<longleftrightarrow> (\<exists>n. map_of p ''name'' = Some (RStr n))
                \<and> (\<forall>x. map_of p ''id'' = Some x
                      \<longrightarrow> (\<exists>u. x = RUuid u) \<or> (\<exists>s u. x = RStr s \<and> uuid_parse w s = Some u))"
    by (rule ItemCreate_validates_iff)
next
  fix x assume "map_of p ''name'' = Some x" "x = RNone \<or> (\<exists>n. x = RStr n)"
  with assms show "validates ItemUpdate (RDict p) w"
    by (auto simp: validates_def class_defs)
next
  fix n assume "map_of p ''name'' = Some (RStr n)" "map_of p ''id'' = None"
  with assms show "fst (model_validate ItemCreate (RDict p) w)
                = Inr (VModel ''ItemCreate''
                        [(''id'', VUuid (uuid4_values w (uuid4_calls w))),
                         (''name'', VStr n), (''ingredients'', VList [])]
                        [''name''])"
    by (simp add: class_defs)
next
  fix n assume "map_of p ''name'' = Some (RStr n)"
  with assms show "fst (model_validate ItemUpdate (RDict p) w)
                = Inr (VModel ''ItemUpdate''
                        [(''name'', VStr n), (''ingredients'', VList [])]
                        [''name''])"
    by (simp add: class_defs)
qed

theorem absent_ingredients_default_empty_witness:
  "map_of [(''name'', RStr ''Big Mac'')] ''ingredients'' = None
   \<and> validates ItemCreate (RDict [(''name'', RStr ''Big Mac'')]) example_runtime
   \<and> model_validate ItemCreate (RDict [(''name'', RStr ''Big Mac'')]) example_runtime
     = (Inr (VModel ''ItemCreate''
             [(''id'', VUuid 1), (''name'', VStr ''Big Mac''), (''ingredients'', VList [])]
             [''name'']),
        example_runtime\<lparr>uuid4_calls := Suc 0\<rparr>)
   \<and> getattr (VModel ''ItemCreate''
             [(''id'', VUuid 1), (''name'', VStr ''Big Mac''), (''ingredients'', VList [])]
             [''name''])
        ''ingredients'' = Some (VList [])
   \<and> validates ItemUpdate (RDict [(''name'', RStr ''Big Mac'')]) example_runtime
   \<and> model_validate ItemUpdate (RDict [(''name'', RStr ''Big Mac'')]) example_runtime
     = (Inr (VModel ''ItemUpdate'' [(''name'', VStr ''Big Mac''), (''ingredients'', VList [])]
             [''name'']),
        example_runtime)
   \<and> getattr (VModel ''ItemUpdate'' [(''name'', VStr ''Big Mac''), (''ingredients'', VList [])]
             [''name''])
        ''ingredients'' = Some (VList [])
   \<and> map_of [(''name'', RInt 5)] ''ingredients'' = None
   \<and> \<not> validates ItemCreate (RDict [(''name'', RInt 5)]) example_runtime
   \<and> model_validate ItemCreate (RDict [(''name'', RInt 5)]) example_runtime
     = (Inl [ErrorDetails [Key ''name''] string_type (RInt 5)],
        example_runtime\<lparr>uuid4_calls := Suc 0\<rparr>)
   \<and> model_validate ItemUpdate (RDict [(''name'', RInt 5)]) example_runtime
     = (Inl [ErrorDetails [Key ''name''] string_type (RInt 5)], example_runtime)
   \<and> loc (ErrorDetails [Key ''name''] string_type (RInt 5)) = [Key ''name'']"
proof -
  have a: "map_of [(''name'', RStr ''Big Mac'')] ''ingredients'' = None" by simp
  have b: "map_of [(''name'', RInt 5)] ''ingredients'' = None" by simp
  have c: "model_validate ItemCreate (RDict [(''name'', RStr ''Big Mac'')]) example_runtime
     = (Inr (VModel ''ItemCreate''
             [(''id'', VUuid 1), (''name'', VStr ''Big Mac''), (''ingredients'', VList [])]
             [''name'']),
        example_runtime\<lparr>uuid4_calls := Suc 0\<rparr>)"
    by (simp add: class_defs example_runtime_def)
  have u: "model_validate ItemUpdate (RDict [(''name'', RStr ''Big Mac'')]) example_runtime
     = (Inr (VModel ''ItemUpdate'' [(''name'', VStr ''Big Mac''), (''ingredients'', VList [])]
             [''name'']),
        example_runtime)"
    by (simp add: class_defs)
  have ce: "model_validate ItemCreate (RDict [(''name'', RInt 5)]) example_runtime
     = (Inl [ErrorDetails [Key ''name''] string_type (RInt 5)],
        example_runtime\<lparr>uuid4_calls := Suc 0\<rparr>)"
    by (simp add: class_defs example_runtime_def)
  have ue: "model_validate ItemUpdate (RDict [(''name'', RInt 5)]) example_runtime
     = (Inl [ErrorDetails [Key ''name''] string_type (RInt 5)], example_runtime)"
    by (simp add: class_defs)
  from absent_ingredients_default_empty [OF a, of example_runtime]
    absent_ingredients_default_empty [OF b, of example_runtime] a b c u ce ue
  show ?thesis by simp
qed

section \<open>Item: the identifier on Create\<close>

text \<open>
  The example payload that \<^verbatim>\<open>ItemCreate\<close> documents carries an \<^verbatim>\<open>id\<close>. Validation keeps
  it: the instance has the identifier the client sent, whether sent as text or as a
  \<^verbatim>\<open>UUID\<close> object, and only a payload without \<^verbatim>\<open>id\<close> receives the next value of
  \<^verbatim>\<open>uuid4\<close>.
\<close>

theorem ItemCreate_client_id_counterexample:
  "fst (model_validate ItemCreate
          (RDict [(''id'', RStr ''550e8400-e29b-41d4-a716-446655440000''),
                  (''name'', RStr ''Big Mac'')]) example_runtime)
     = Inr (VModel ''ItemCreate''
             [(''id'', VUuid 0x550e8400e29b41d4a716446655440000),
              (''name'', VStr ''Big Mac''), (''ingredients'', VList [])]
             [''id'', ''name''])
   \<and> fst (model_validate ItemCreate
          (RDict [(''id'', RUuid 7), (''name'', RStr ''Big Mac'')]) example_runtime)
     = Inr (VModel ''ItemCreate''
             [(''id'', VUuid 7), (''name'', VStr ''Big Mac''), (''ingredients'', VList [])]
             [''id'', ''name''])
   \<and> fst (model_validate ItemCreate (RDict [(''name'', RStr ''Big Mac'')]) example_runtime)
     = Inr (VModel ''ItemCreate''
             [(''id'', VUuid 1), (''name'', VStr ''Big Mac''), (''ingredients'', VList [])]
             [''name''])"
  by (simp add: class_defs example_runtime_def)

text \<open>
  Claim C3, as amended. On Create the identifier is generated by the system only when
  the payload omits it; an identifier the client supplies, as a \<^verbatim>\<open>UUID\<close> object or as text
  the library parses, is accepted and is the identifier of the validated instance.
\<close>

theorem ItemCreate_id_supplied_or_generated:
  assumes "model_validate ItemCreate (RDict p) w = (Inr inst, w')"
  shows "(map_of p ''id'' = None
            \<longrightarrow> getattr inst ''id'' = Some (VUuid (uuid4_values w (uuid4_calls w))))
       \<and> (\<forall>u. map_of p ''id'' = Some (RUuid u) \<longrightarrow> getattr inst ''id'' = Some (VUuid u))
       \<and> (\<forall>s. map_of p ''id'' = Some (RStr s)
            \<longrightarrow> (\<exists>u. uuid_parse w s = Some u \<and> getattr inst ''id'' = Some (VUuid u)))"
  using assms
  by (auto simp: class_defs split: option.splits prod.splits sum.splits if_splits raw.splits)

theorem ItemCreate_id_supplied_or_generated_witness:
  "model_validate ItemCreate
     (RDict [(''id'', RUuid 7), (''name'', RStr ''Big Mac'')]) example_runtime
     = (Inr (VModel ''ItemCreate''
          [(''id'', VUuid 7), (''name'', VStr ''Big Mac''), (''ingredients'', VList [])]
             [''id'', ''name'']),
        example_runtime)
   \<and> getattr (VModel ''ItemCreate''
             [(''id'', VUuid 7), (''name'', VStr ''Big Mac''), (''ingredients'', VList [])]
             [''id'', ''name''])
     ''id'' = Some (VUuid 7)
   \<and> model_validate ItemCreate
     (RDict [(''id'', RStr ''550e8400-e29b-41d4-a716-446655440000''),
             (''name'', RStr ''Big Mac'')]) example_runtime
     = (Inr (VModel ''ItemCreate''
          [(''id'', VUuid 0x550e8400e29b41d4a716446655440000), (''name'', VStr ''Big Mac''),
           (''ingredients'', VList [])]
             [''id'', ''name'']),
        example_runtime)
   \<and> (\<exists>u. uuid_parse example_runtime ''550e8400-e29b-41d4-a716-446655440000'' = Some u
          \<and> getattr (VModel ''ItemCreate''
               [(''id'', VUuid 0x550e8400e29b41d4a716446655440000), (''name'', VStr ''Big Mac''),
                (''ingredients'', VList [])]
             [''id'', ''name'']) ''id'' = Some (VUuid u))
   \<and> model_validate ItemCreate (RDict [(''name'', RStr ''Big Mac'')]) example_runtime
     = (Inr (VModel ''ItemCreate''
          [(''id'', VUuid 1), (''name'', VStr ''Big Mac''), (''ingredients'', VList [])]
             [''name'']),
        example_runtime\<lparr>uuid4_calls := Suc 0\<rparr>)
   \<and> getattr (VModel ''ItemCreate''
             [(''id'', VUuid 1), (''name'', VStr ''Big Mac''), (''ingredients'', VList [])]
             [''name''])
     ''id'' = Some (VUuid (uuid4_values example_runtime (uuid4_calls example_runtime)))"
proof -
  have a: "model_validate ItemCreate
             (RDict [(''id'', RUuid 7), (''name'', RStr ''Big Mac'')]) example_runtime
           = (Inr (VModel ''ItemCreate''
                [(''id'', VUuid 7), (''name'', VStr ''Big Mac''), (''ingredients'', VList [])]
             [''id'', ''name'']),
              example_runtime)"
    by (simp add: class_defs)
  have s: "model_validate ItemCreate
     (RDict [(''id'', RStr ''550e8400-e29b-41d4-a716-446655440000''),
             (''name'', RStr ''Big Mac'')]) example_runtime
     = (Inr (VModel ''ItemCreate''
          [(''id'', VUuid 0x550e8400e29b41d4a716446655440000), (''name'', VStr ''Big Mac''),
           (''ingredients'', VList [])]
             [''id'', ''name'']),
        example_runtime)"
    by (simp add: class_defs) (simp add: example_runtime_def)
  have b: "model_validate ItemCreate (RDict [(''name'', RStr ''Big Mac'')]) example_runtime
           = (Inr (VModel ''ItemCreate''
                [(''id'', VUuid 1), (''name'', VStr ''Big Mac''), (''ingredients'', VList [])]
             [''name'']),
              example_runtime\<lparr>uuid4_calls := Suc 0\<rparr>)"
    by (simp add: class_defs example_runtime_def)
  show ?thesis
    using a b s ItemCreate_id_supplied_or_generated [OF a]
      ItemCreate_id_supplied_or_generated [OF b] ItemCreate_id_supplied_or_generated [OF s]
    by simp
qed

section \<open>Read variants: omitted timestamps\<close>

text \<open>
  Both Read classes declare \<^verbatim>\<open>created_at\<close> and \<^verbatim>\<open>updated_at\<close> with
  \<^verbatim>\<open>default_factory=datetime.utcnow\<close>. A Read-shaped payload without them validates, and
  the instance carries two readings of the clock.
\<close>

theorem Read_timestamps_default_to_clock_counterexample:
  "fst (model_validate ItemRead (RDict [(''name'', RStr ''Big Mac'')]) example_runtime)
     = Inr (VModel ''ItemRead''
             [(''id'', VUuid 1), (''name'', VStr ''Big Mac''), (''ingredients'', VList []),
              (''created_at'', VDatetime (Naive 1000)), (''updated_at'', VDatetime (Naive 1001))]
             [''name''])"
  by (simp add: class_defs example_runtime_def)

text \<open>
  Claim C7, as amended. The Read variant does not require the timestamps. A Read-shaped
  payload validates exactly when it validates as the Base shape and every timestamp it
  does supply is a valid \<^verbatim>\<open>datetime\<close> (for the Location, also when its \<^verbatim>\<open>id\<close>, if
  supplied, is a valid identifier): an omitted \<^verbatim>\<open>created_at\<close> or \<^verbatim>\<open>updated_at\<close> is never
  a reason to fail. In the validated instance each omitted timestamp is a naive reading
  of the UTC clock, taken in the order \<^verbatim>\<open>created_at\<close>, \<^verbatim>\<open>updated_at\<close>.
\<close>

theorem Read_timestamps_default_to_clock:
  "(validates ItemRead (RDict p) w
      \<longleftrightarrow> validates ItemBase (RDict p) w
          \<and> (\<forall>x. map_of p ''created_at'' = Some x \<longrightarrow> (\<exists>d. coerce_datetime w x = Inr d))
          \<and> (\<forall>x. map_of p ''updated_at'' = Some x \<longrightarrow> (\<exists>d. coerce_datetime w x = Inr d)))
   \<and> (validates McDonaldsRead (RDict p) w
      \<longleftrightarrow> validates McDonaldsBase (RDict p) w
          \<and> (\<forall>x. map_of p ''id'' = Some x
                \<longrightarrow> (\<exists>u. x = RUuid u) \<or> (\<exists>s u. x = RStr s \<and> uuid_parse w s = Some u))
          \<and> (\<forall>x. map_of p ''created_at'' = Some x \<longrightarrow> (\<exists>d. coerce_datetime w x = Inr d))
          \<and> (\<forall>x. map_of p ''updated_at'' = Some x \<longrightarrow> (\<exists>d. coerce_datetime w x = Inr d)))
   \<and> (\<forall>cls inst w'. cls = ItemRead \<or> cls = McDonaldsRead
      \<longrightarrow> model_validate cls (RDict p) w = (Inr inst, w')
      \<longrightarrow> (map_of p ''created_at'' = None
            \<longrightarrow> getattr inst ''created_at''
                = Some (VDatetime (Naive (utcnow_values w (utcnow_calls w)))))
        \<and> (map_of p ''updated_at'' = None
            \<longrightarrow> getattr inst ''updated_at''
                = Some (VDatetime (Naive (utcnow_values w
                     (if map_of p ''created_at'' = None then Suc (utcnow_calls w)
                      else utcnow_calls w))))))"
proof (intro conjI allI impI)
  show "validates ItemRead (RDict p) w
      \<longleftrightarrow> validates ItemBase (RDict p) w
          \<and> (\<forall>x. map_of p ''created_at'' = Some x \<longrightarrow> (\<exists>d. coerce_datetime w x = Inr d))
          \<and> (\<forall>x. map_of p ''updated_at'' = Some x \<longrightarrow> (\<exists>d. coerce_datetime w x = Inr d))"
    by (rule ItemRead_validates_iff)
next
  show "validates McDonaldsRead (RDict p) w
      \<longleftrightarrow> validates McDonaldsBase (RDict p) w
          \<and> (\<forall>x. map_of p ''id'' = Some x
                \<longrightarrow> (\<exists>u. x = RUuid u) \<or> (\<exists>s u. x = RStr s \<and> uuid_parse w s = Some u))
          \<and> (\<forall>x. map_of p ''created_at'' = Some x \<longrightarrow> (\<exists>d. coerce_datetime w x = Inr d))
          \<and> (\<forall>x. map_of p ''updated_at'' = Some x \<longrightarrow> (\<exists>d. coerce_datetime w x = Inr d))"
    by (rule McDonaldsRead_validates_iff)
next
  fix cls inst w'
  assume cls: "cls = ItemRead \<or> cls = McDonaldsRead"
    and v: "model_validate cls (RDict p) w = (Inr inst, w')"
    and c: "map_of p ''created_at'' = None"
  from Read_instance_timestamps [OF cls v] c
  show "getattr inst ''created_at''
          = Some (VDatetime (Naive (utcnow_values w (utcnow_calls w))))"
    by auto
next
  fix cls inst w'
  assume cls: "cls = ItemRead \<or> cls = McDonaldsRead"
    and v: "model_validate cls (RDict p) w = (Inr inst, w')"
    and u: "map_of p ''updated_at'' = None"
  from Read_instance_timestamps [OF cls v] u
  show "getattr inst ''updated_at''
          = Some (VDatetime (Naive (utcnow_values w
               (if map_of p ''created_at'' = None then Suc (utcnow_calls w)
                else utcnow_calls w))))"
    by auto
qed

theorem Read_timestamps_default_to_clock_witness:
  "validates ItemBase (RDict [(''name'', RStr ''Big Mac''), (''created_at'', RInt 5)])
     example_runtime
   \<and> validates ItemRead (RDict [(''name'', RStr ''Big Mac''), (''created_at'', RInt 5)])
     example_runtime
   \<and> model_validate ItemRead (RDict [(''name'', RStr ''Big Mac''), (''created_at'', RInt 5)])
       example_runtime
     = (Inr (VModel ''ItemRead''
          [(''id'', VUuid 1), (''name'', VStr ''Big Mac''), (''ingredients'', VList []),
           (''created_at'', VDatetime (Aware 5000000)),
           (''updated_at'', VDatetime (Naive 1000))]
          [''name'', ''created_at'']),
        example_runtime\<lparr>uuid4_calls := Suc 0, utcnow_calls := Suc 0\<rparr>)
   \<and> validates McDonaldsBase (RDict [(''address'', example_address), (''id'', RUuid 9)])
     example_runtime
   \<and> validates McDonaldsRead (RDict [(''address'', example_address), (''id'', RUuid 9)])
     example_runtime
   \<and> model_validate McDonaldsRead (RDict [(''address'', example_address), (''id'', RUuid 9)])
       example_runtime
     = (Inr (VModel ''McDonaldsRead''
          [(''address'', example_address_instance), (''menu'', VList []), (''id'', VUuid 9),
           (''created_at'', VDatetime (Naive 1000)), (''updated_at'', VDatetime (Naive 1001))]
          [''address'', ''id'']),
        example_runtime\<lparr>utcnow_calls := Suc (Suc 0)\<rparr>)
   \<and> getattr (VModel ''McDonaldsRead''
          [(''address'', example_address_instance), (''menu'', VList []), (''id'', VUuid 9),
           (''created_at'', VDatetime (Naive 1000)), (''updated_at'', VDatetime (Naive 1001))]
          [''address'', ''id'']) ''updated_at''
     = Some (VDatetime (Naive (utcnow_values example_runtime
                                 (Suc (utcnow_calls example_runtime)))))"
proof -
  have a: "validates ItemBase (RDict [(''name'', RStr ''Big Mac''), (''created_at'', RInt 5)])
     example_runtime"
    by (simp add: validates_def class_defs)
  have b: "validates McDonaldsBase (RDict [(''address'', example_address), (''id'', RUuid 9)])
     example_runtime"
    by (simp add: validates_def location_defs example_address_valid0)
  have i: "model_validate ItemRead (RDict [(''name'', RStr ''Big Mac''), (''created_at'', RInt 5)])
       example_runtime
     = (Inr (VModel ''ItemRead''
          [(''id'', VUuid 1), (''name'', VStr ''Big Mac''), (''ingredients'', VList []),
           (''created_at'', VDatetime (Aware 5000000)),
           (''updated_at'', VDatetime (Naive 1000))]
          [''name'', ''created_at'']),
        example_runtime\<lparr>uuid4_calls := Suc 0, utcnow_calls := Suc 0\<rparr>)"
    by (simp add: class_defs example_runtime_def)
  have m: "model_validate McDonaldsRead (RDict [(''address'', example_address), (''id'', RUuid 9)])
       example_runtime
     = (Inr (VModel ''McDonaldsRead''
          [(''address'', example_address_instance), (''menu'', VList []), (''id'', VUuid 9),
           (''created_at'', VDatetime (Naive 1000)), (''updated_at'', VDatetime (Naive 1001))]
          [''address'', ''id'']),
        example_runtime\<lparr>utcnow_calls := Suc (Suc 0)\<rparr>)"
    by (simp add: location_defs example_address_valid0 example_runtime_simps)
  have co: "coerce_datetime example_runtime (RInt 5) = Inr (Aware 5000000)"
    by (simp add: example_runtime_def)
  note t = Read_timestamps_default_to_clock
  from t [of "[(''name'', RStr ''Big Mac''), (''created_at'', RInt 5)]" example_runtime] a co
  have 1: "validates ItemRead (RDict [(''name'', RStr ''Big Mac''), (''created_at'', RInt 5)])
     example_runtime"
    by simp
  from t [of "[(''address'', example_address), (''id'', RUuid 9)]" example_runtime] b
  have 2: "validates McDonaldsRead (RDict [(''address'', example_address), (''id'', RUuid 9)])
     example_runtime"
    by simp
  from t [of "[(''address'', example_address), (''id'', RUuid 9)]" example_runtime,
          THEN conjunct2, THEN conjunct2, rule_format, OF disjI2 [OF refl] m]
  have 3: "getattr (VModel ''McDonaldsRead''
          [(''address'', example_address_instance), (''menu'', VList []), (''id'', VUuid 9),
           (''created_at'', VDatetime (Naive 1000)), (''updated_at'', VDatetime (Naive 1001))]
          [''address'', ''id'']) ''updated_at''
     = Some (VDatetime (Naive (utcnow_values example_runtime
                                 (Suc (utcnow_calls example_runtime)))))"
    by simp
  from a b i m 1 2 3 show ?thesis by (intro conjI)
qed

section \<open>Read variants: the order of the timestamps\<close>

text \<open>
  No class declares a validator that compares the two timestamps. A Read payload whose
  \<^verbatim>\<open>updated_at\<close> lies before its \<^verbatim>\<open>created_at\<close> validates, the instance keeps both, and
  \<^verbatim>\<open>created_at <= updated_at\<close> is false on it.
\<close>

theorem Read_timestamps_order_counterexample:
  "fst (model_validate ItemRead
          (RDict [(''name'', RStr ''Big Mac''), (''created_at'', RDatetime (Naive 2000)),
                  (''updated_at'', RDatetime (Naive 1000))]) example_runtime)
     = Inr (VModel ''ItemRead''
             [(''id'', VUuid 1), (''name'', VStr ''Big Mac''), (''ingredients'', VList []),
              (''created_at'', VDatetime (Naive 2000)), (''updated_at'', VDatetime (Naive 1000))]
             [''name'', ''created_at'', ''updated_at''])
   \<and> datetime_le (Naive 2000) (Naive 1000) = Inr False"
  by (simp add: class_defs example_runtime_def)

text \<open>
  Claim C8, as amended. Validation enforces no order between the timestamps. In every
  validated instance of a Read variant each timestamp is determined by the payload
  alone: the value pydantic makes of what the payload supplies (a \<^verbatim>\<open>datetime\<close> object as it
  is, text or an integer as parsed), or, when the payload omits it, a naive reading of
  the clock, \<^verbatim>\<open>created_at\<close> read before \<^verbatim>\<open>updated_at\<close>. Whether
  \<^verbatim>\<open>created_at <= updated_at\<close> holds on the instance follows from these two values: it is
  true when both are omitted and the clock does not run backwards, and it raises
  \<^verbatim>\<open>TypeError\<close> when one is omitted (naive) and the other is supplied as an integer
  timestamp (aware).
\<close>

theorem Read_timestamps_not_compared:
  assumes "cls = ItemRead \<or> cls = McDonaldsRead"
    and "model_validate cls (RDict p) w = (Inr inst, w')"
  shows "\<exists>c u. getattr inst ''created_at'' = Some (VDatetime c)
         \<and> getattr inst ''updated_at'' = Some (VDatetime u)
         \<and> (case map_of p ''created_at'' of
               None \<Rightarrow> c = Naive (utcnow_values w (utcnow_calls w))
             | Some x \<Rightarrow> coerce_datetime w x = Inr c)
         \<and> (case map_of p ''updated_at'' of
               None \<Rightarrow> u = Naive (utcnow_values w
                                (if map_of p ''created_at'' = None then Suc (utcnow_calls w)
                                 else utcnow_calls w))
             | Some x \<Rightarrow> coerce_datetime w x = Inr u)
         \<and> (map_of p ''created_at'' = None \<longrightarrow> map_of p ''updated_at'' = None
               \<longrightarrow> (\<forall>i. utcnow_values w i \<le> utcnow_values w (Suc i))
               \<longrightarrow> datetime_le c u = Inr True)
         \<and> (\<forall>n. map_of p ''created_at'' = None \<longrightarrow> map_of p ''updated_at'' = Some (RInt n)
               \<longrightarrow> datetime_le c u = Inl TypeError)
         \<and> (\<forall>n. map_of p ''created_at'' = Some (RInt n) \<longrightarrow> map_of p ''updated_at'' = None
               \<longrightarrow> datetime_le c u = Inl TypeError)"
proof -
  from Read_instance_timestamps [OF assms] obtain c u where
    g: "getattr inst ''created_at'' = Some (VDatetime c)"
       "getattr inst ''updated_at'' = Some (VDatetime u)"
    and c: "case map_of p ''created_at'' of
               None \<Rightarrow> c = Naive (utcnow_values w (utcnow_calls w))
             | Some x \<Rightarrow> coerce_datetime w x = Inr c"
    and u: "case map_of p ''updated_at'' of
               None \<Rightarrow> u = Naive (utcnow_values w
                                (if map_of p ''created_at'' = None then Suc (utcnow_calls w)
                                 else utcnow_calls w))
             | Some x \<Rightarrow> coerce_datetime w x = Inr u"
    by (elim exE conjE)
  have both: "datetime_le c u = Inr True"
    if "map_of p ''created_at'' = None" "map_of p ''updated_at'' = None"
      "\<forall>i. utcnow_values w i \<le> utcnow_values w (Suc i)"
    using that c u by simp
  have mixed1: "datetime_le c u = Inl TypeError"
    if "map_of p ''created_at'' = None" "map_of p ''updated_at'' = Some (RInt n)" for n
    using that c u by (auto split: sum.splits)
  have mixed2: "datetime_le c u = Inl TypeError"
    if "map_of p ''created_at'' = Some (RInt n)" "map_of p ''updated_at'' = None" for n
    using that c u by (auto split: sum.splits)
  show ?thesis
  proof (rule exI [of _ c], rule exI [of _ u], intro conjI allI impI)
    show "getattr inst ''created_at'' = Some (VDatetime c)" by (rule g(1))
    show "getattr inst ''updated_at'' = Some (VDatetime u)" by (rule g(2))
    show "case map_of p ''created_at'' of
               None \<Rightarrow> c = Naive (utcnow_values w (utcnow_calls w))
             | Some x \<Rightarrow> coerce_datetime w x = Inr c"
      by (rule c)
    show "case map_of p ''updated_at'' of
               None \<Rightarrow> u = Naive (utcnow_values w
                                (if map_of p ''created_at'' = None then Suc (utcnow_calls w)
                                 else utcnow_calls w))
             | Some x \<Rightarrow> coerce_datetime w x = Inr u"
      by (rule u)
  qed (simp_all add: both mixed1 mixed2)
qed

theorem Read_timestamps_not_compared_witness:
  "model_validate ItemRead (RDict [(''name'', RStr ''Big Mac'')]) example_runtime
     = (Inr (VModel ''ItemRead''
          [(''id'', VUuid 1), (''name'', VStr ''Big Mac''), (''ingredients'', VList []),
           (''created_at'', VDatetime (Naive 1000)), (''updated_at'', VDatetime (Naive 1001))]
          [''name'']),
        example_runtime\<lparr>uuid4_calls := Suc 0, utcnow_calls := Suc (Suc 0)\<rparr>)
   \<and> datetime_le (Naive 1000) (Naive 1001) = Inr True
   \<and> model_validate McDonaldsRead
       (RDict [(''address'', example_address), (''updated_at'', RInt 2000)]) example_runtime
     = (Inr (VModel ''McDonaldsRead''
          [(''address'', example_address_instance), (''menu'', VList []), (''id'', VUuid 1),
           (''created_at'', VDatetime (Naive 1000)),
           (''updated_at'', VDatetime (Aware 2000000000))]
          [''address'', ''updated_at'']),
        example_runtime\<lparr>uuid4_calls := Suc 0, utcnow_calls := Suc 0\<rparr>)
   \<and> datetime_le (Naive 1000) (Aware 2000000000) = Inl TypeError"
proof -
  have a: "model_validate ItemRead (RDict [(''name'', RStr ''Big Mac'')]) example_runtime
     = (Inr (VModel ''ItemRead''
          [(''id'', VUuid 1), (''name'', VStr ''Big Mac''), (''ingredients'', VList []),
           (''created_at'', VDatetime (Naive 1000)), (''updated_at'', VDatetime (Naive 1001))]
          [''name'']),
        example_runtime\<lparr>uuid4_calls := Suc 0, utcnow_calls := Suc (Suc 0)\<rparr>)"
    by (simp add: class_defs example_runtime_def)
  have co: "datetime_of_timestamp example_runtime 2000 = Inr 2000000000"
    by (simp add: example_runtime_def)
  have b: "model_validate McDonaldsRead
       (RDict [(''address'', example_address), (''updated_at'', RInt 2000)]) example_runtime
     = (Inr (VModel ''McDonaldsRead''
          [(''address'', example_address_instance), (''menu'', VList []), (''id'', VUuid 1),
           (''created_at'', VDatetime (Naive 1000)),
           (''updated_at'', VDatetime (Aware 2000000000))]
          [''address'', ''updated_at'']),
        example_runtime\<lparr>uuid4_calls := Suc 0, utcnow_calls := Suc 0\<rparr>)"
    by (simp add: location_defs example_address_valid0 example_runtime_simps co)
  have mono: "\<forall>i. utcnow_values example_runtime i \<le> utcnow_values example_runtime (Suc i)"
    by (simp add: example_runtime_def)
  from Read_timestamps_not_compared [OF disjI1 [OF refl] a] mono
  have 1: "datetime_le (Naive 1000) (Naive 1001) = Inr True"
    by auto
  from Read_timestamps_not_compared [OF disjI2 [OF refl] b]
  have 2: "datetime_le (Naive 1000) (Aware 2000000000) = Inl TypeError"
    by auto
  from a b 1 2 show ?thesis by (intro conjI)
qed

section \<open>Item: serialising a Read instance and validating it as Base\<close>

text \<open>
  Claim C9. For every instance that Item Read validation produces, \<^verbatim>\<open>model_dump()\<close> of the
  instance validates through the Item Base validator: the Read instance has the three
  Base fields followed by the two timestamps, the Base validator ignores the timestamps,
  and the Base instance it returns has the same \<^verbatim>\<open>id\<close>, \<^verbatim>\<open>name\<close> and \<^verbatim>\<open>ingredients\<close>.
\<close>

theorem ItemRead_dump_validates_as_ItemBase:
  assumes "model_validate ItemRead (RDict p) w = (Inr inst, w')"
  shows "\<exists>u n vs c d.
           inst = VModel ''ItemRead''
                    [(''id'', VUuid u), (''name'', VStr n), (''ingredients'', VList vs),
                     (''created_at'', VDatetime c), (''updated_at'', VDatetime d)]
                    (filter (\<lambda>name. map_of p name \<noteq> None)
                       [''id'', ''name'', ''ingredients'', ''created_at'', ''updated_at''])
         \<and> model_validate ItemBase (model_dump inst) w2
             = (Inr (VModel ''ItemBase''
                       [(''id'', VUuid u), (''name'', VStr n), (''ingredients'', VList vs)]
                       [''id'', ''name'', ''ingredients'']),
                w2)"
proof -
  from model_validate_InrD [OF assms [unfolded ItemRead_def]] obtain out where
    v: "validate_fields ItemRead_fields [] p w = (([], out), w')"
    and inst: "inst = VModel ''ItemRead'' out
                 (filter (\<lambda>name. map_of p name \<noteq> None) (map field_name ItemRead_fields))"
    by blast
  have st: "map field_name ItemRead_fields
              = [''id'', ''name'', ''ingredients'', ''created_at'', ''updated_at'']"
    by (simp add: ItemRead_fields_def ItemBase_fields_def)
  from validate_fields_append_InrD [OF v [unfolded ItemRead_fields_def]] obtain o1 o2 w1 where
    a: "validate_fields ItemBase_fields [] p w = (([], o1), w1)"
    and b: "validate_fields
             [Field ''created_at'' T_datetime (Default_factory F_utcnow),
              Field ''updated_at'' T_datetime (Default_factory F_utcnow)] [] p w1 = (([], o2), w')"
    and out: "out = o1 @ o2"
    by (elim exE conjE)
  from ItemBase_fields_InrD [OF a] obtain u n vs where
    o1: "o1 = [(''id'', VUuid u), (''name'', VStr n), (''ingredients'', VList vs)]"
    and vs: "\<forall>v \<in> set vs. \<exists>s. v = VStr s"
    by (elim exE conjE)
  from timestamp_fields_InrD [OF b] obtain c d where
    o2: "o2 = [(''created_at'', VDatetime c), (''updated_at'', VDatetime d)]"
    by (elim exE)
  have shape: "inst = VModel ''ItemRead''
                    [(''id'', VUuid u), (''name'', VStr n), (''ingredients'', VList vs),
                     (''created_at'', VDatetime c), (''updated_at'', VDatetime d)]
                    (filter (\<lambda>name. map_of p name \<noteq> None)
                       [''id'', ''name'', ''ingredients'', ''created_at'', ''updated_at''])"
    unfolding inst st by (simp add: out o1 o2)
  have "model_validate ItemBase (model_dump inst) w2
             = (Inr (VModel ''ItemBase''
                       [(''id'', VUuid u), (''name'', VStr n), (''ingredients'', VList vs)]
                       [''id'', ''name'', ''ingredients'']),
                w2)"
    unfolding shape
    by (simp add: model_validate_def ItemBase_def ItemBase_fields_def
        validate_items_dump_str [OF vs])
  with shape show ?thesis by blast
qed

theorem ItemRead_dump_validates_as_ItemBase_witness:
  "model_validate ItemRead
     (RDict [(''name'', RStr ''Big Mac''),
             (''ingredients'', RList [RStr ''Mac Sauce'', RStr ''Bun''])]) example_runtime
     = (Inr (VModel ''ItemRead''
          [(''id'', VUuid 1), (''name'', VStr ''Big Mac''),
           (''ingredients'', VList [VStr ''Mac Sauce'', VStr ''Bun'']),
           (''created_at'', VDatetime (Naive 1000)), (''updated_at'', VDatetime (Naive 1001))]
          [''name'', ''ingredients'']),
        example_runtime\<lparr>uuid4_calls := Suc 0, utcnow_calls := Suc (Suc 0)\<rparr>)
   \<and> model_validate ItemBase
       (model_dump (VModel ''ItemRead''
          [(''id'', VUuid 1), (''name'', VStr ''Big Mac''),
           (''ingredients'', VList [VStr ''Mac Sauce'', VStr ''Bun'']),
           (''created_at'', VDatetime (Naive 1000)), (''updated_at'', VDatetime (Naive 1001))]
          [''name'', ''ingredients'']))
       example_runtime
     = (Inr (VModel ''ItemBase''
          [(''id'', VUuid 1), (''name'', VStr ''Big Mac''),
           (''ingredients'', VList [VStr ''Mac Sauce'', VStr ''Bun''])]
          [''id'', ''name'', ''ingredients'']),
        example_runtime)"
proof -
  have a: "model_validate ItemRead
     (RDict [(''name'', RStr ''Big Mac''),
             (''ingredients'', RList [RStr ''Mac Sauce'', RStr ''Bun''])]) example_runtime
     = (Inr (VModel ''ItemRead''
          [(''id'', VUuid 1), (''name'', VStr ''Big Mac''),
           (''ingredients'', VList [VStr ''Mac Sauce'', VStr ''Bun'']),
           (''created_at'', VDatetime (Naive 1000)), (''updated_at'', VDatetime (Naive 1001))]
          [''name'', ''ingredients'']),
        example_runtime\<lparr>uuid4_calls := Suc 0, utcnow_calls := Suc (Suc 0)\<rparr>)"
    by (simp add: class_defs example_runtime_def)
  from ItemRead_dump_validates_as_ItemBase [OF a, of example_runtime] a
  show ?thesis by auto
qed

section \<open>Location: where the identifier lives\<close>

text \<open>
  \<^verbatim>\<open>McDonaldsBase\<close> declares \<^verbatim>\<open>address\<close> and \<^verbatim>\<open>menu\<close> only; \<^verbatim>\<open>id\<close> is declared by
  \<^verbatim>\<open>McDonaldsRead\<close>. A Base or Create instance has no \<^verbatim>\<open>id\<close> attribute, and an \<^verbatim>\<open>id\<close> in
  the payload is an undeclared key, which validation ignores.
\<close>

theorem McDonaldsBase_no_id_counterexample:
  "fst (model_validate McDonaldsBase
          (RDict [(''id'', RUuid 9), (''address'', example_address)]) example_runtime)
     = Inr (VModel ''McDonaldsBase''
              [(''address'', example_address_instance), (''menu'', VList [])] [''address''])
   \<and> getattr (VModel ''McDonaldsBase''
              [(''address'', example_address_instance), (''menu'', VList [])] [''address''])
        ''id'' = None
   \<and> fst (model_validate McDonaldsCreate
          (RDict [(''id'', RUuid 9), (''address'', example_address)]) example_runtime)
     = Inr (VModel ''McDonaldsCreate''
              [(''address'', example_address_instance), (''menu'', VList [])] [''address''])
   \<and> getattr (VModel ''McDonaldsCreate''
              [(''address'', example_address_instance), (''menu'', VList [])] [''address''])
        ''id'' = None"
  by (simp add: McDonaldsBase_def McDonaldsCreate_def McDonaldsBase_fields_def model_validate_def
      example_address_valid0)

text \<open>
  Claim C4, as amended. An instance of the Base variant of the Location, and the instance
  of the Create variant validated from the same payload, carry exactly the fields
  \<^verbatim>\<open>address\<close> and \<^verbatim>\<open>menu\<close> and no \<^verbatim>\<open>id\<close>; the \<^verbatim>\<open>id\<close> with a system-generated default
  belongs to the Read variant, whose instance receives the next \<^verbatim>\<open>uuid4\<close> value when the
  payload has no \<^verbatim>\<open>id\<close>.
\<close>

theorem McDonalds_id_only_on_Read:
  assumes "model_validate McDonaldsBase (RDict p) w = (Inr b, w1)"
  shows "\<exists>a m. b = VModel ''McDonaldsBase'' [(''address'', a), (''menu'', m)]
                      (filter (\<lambda>name. map_of p name \<noteq> None) [''address'', ''menu''])
         \<and> getattr b ''id'' = None
         \<and> model_validate McDonaldsCreate (RDict p) w
             = (Inr (VModel ''McDonaldsCreate'' [(''address'', a), (''menu'', m)]
                       (filter (\<lambda>name. map_of p name \<noteq> None) [''address'', ''menu''])),
                w1)
         \<and> getattr (VModel ''McDonaldsCreate'' [(''address'', a), (''menu'', m)]
                       (filter (\<lambda>name. map_of p name \<noteq> None) [''address'', ''menu'']))
               ''id'' = None
         \<and> (map_of p ''id'' = None
             \<longrightarrow> (\<forall>inst w2. model_validate McDonaldsRead (RDict p) w = (Inr inst, w2)
                   \<longrightarrow> getattr inst ''id'' = Some (VUuid (uuid4_values w1 (uuid4_calls w1)))))"
proof -
  from model_validate_InrD [OF assms [unfolded McDonaldsBase_def]] obtain out where
    v: "validate_fields McDonaldsBase_fields [] p w = (([], out), w1)"
    and b: "b = VModel ''McDonaldsBase'' out
                  (filter (\<lambda>name. map_of p name \<noteq> None) (map field_name McDonaldsBase_fields))"
    by blast
  from validate_fields_names [OF v] have names: "map fst out = [''address'', ''menu'']"
    by (simp add: McDonaldsBase_fields_def)
  then obtain a m where out: "out = [(''address'', a), (''menu'', m)]"
    by (auto simp: map_eq_Cons_conv)
  have create: "model_validate McDonaldsCreate (RDict p) w
             = (Inr (VModel ''McDonaldsCreate'' [(''address'', a), (''menu'', m)]
                  (filter (\<lambda>name. map_of p name \<noteq> None) (map field_name McDonaldsBase_fields))),
                w1)"
    unfolding McDonaldsCreate_def model_validate_dict v by (simp add: out)
  have read: "getattr inst ''id'' = Some (VUuid (uuid4_values w1 (uuid4_calls w1)))"
    if i: "map_of p ''id'' = None"
      and r: "model_validate McDonaldsRead (RDict p) w = (Inr inst, w2)"
    for inst w2
  proof -
    from model_validate_InrD [OF r [unfolded McDonaldsRead_def]] obtain out' st' where
      v': "validate_fields McDonaldsRead_fields [] p w = (([], out'), w2)"
      and inst: "inst = VModel ''McDonaldsRead'' out' st'"
      by blast
    from validate_fields_append_InrD [OF v' [unfolded McDonaldsRead_fields_def]]
    obtain o1 o2 w1' where
      a1: "validate_fields McDonaldsBase_fields [] p w = (([], o1), w1')"
      and a2: "validate_fields
                 [Field ''id'' T_uuid (Default_factory F_uuid4),
                  Field ''created_at'' T_datetime (Default_factory F_utcnow),
                  Field ''updated_at'' T_datetime (Default_factory F_utcnow)] [] p w1'
               = (([], o2), w2)"
      and out': "out' = o1 @ o2"
      by (elim exE conjE)
    from a1 v have same: "o1 = out" "w1' = w1" by simp_all
    from a2 obtain y wa o3 where
      o2: "o2 = (''id'', y) # o3"
      and d: "case map_of p ''id'' of
               Some v \<Rightarrow> validate T_uuid ([] @ [Key ''id'']) v w1' = (Inr y, wa)
             | None \<Rightarrow> get_default (Default_factory F_uuid4) ([] @ [Key ''id'']) p w1'
                         = (Inr y, wa)"
      by (blast dest: validate_fields_Cons_InrD)
    from d i same have "y = VUuid (uuid4_values w1 (uuid4_calls w1))" by auto
    then show ?thesis by (simp add: inst out' same out o2)
  qed
  have st: "map field_name McDonaldsBase_fields = [''address'', ''menu'']"
    by (simp add: McDonaldsBase_fields_def)
  show ?thesis
    apply (rule exI [of _ a], rule exI [of _ m])
    using b out create read unfolding st by simp
qed

theorem McDonalds_id_only_on_Read_witness:
  "model_validate McDonaldsBase (RDict [(''address'', example_address)]) example_runtime
     = (Inr (VModel ''McDonaldsBase''
               [(''address'', example_address_instance), (''menu'', VList [])] [''address'']),
        example_runtime)
   \<and> getattr (VModel ''McDonaldsBase''
               [(''address'', example_address_instance), (''menu'', VList [])] [''address''])
        ''id'' = None
   \<and> model_validate McDonaldsCreate (RDict [(''address'', example_address)]) example_runtime
     = (Inr (VModel ''McDonaldsCreate''
               [(''address'', example_address_instance), (''menu'', VList [])] [''address'']),
        example_runtime)
   \<and> map_of [(''address'', example_address)] ''id'' = None
   \<and> model_validate McDonaldsRead (RDict [(''address'', example_address)]) example_runtime
     = (Inr (VModel ''McDonaldsRead''
          [(''address'', example_address_instance), (''menu'', VList []), (''id'', VUuid 1),
           (''created_at'', VDatetime (Naive 1000)), (''updated_at'', VDatetime (Naive 1001))]
          [''address'']),
        example_runtime\<lparr>uuid4_calls := Suc 0, utcnow_calls := Suc (Suc 0)\<rparr>)
   \<and> getattr (VModel ''McDonaldsRead''
          [(''address'', example_address_instance), (''menu'', VList []), (''id'', VUuid 1),
           (''created_at'', VDatetime (Naive 1000)), (''updated_at'', VDatetime (Naive 1001))]
          [''address'']) ''id''
     = Some (VUuid (uuid4_values example_runtime (uuid4_calls example_runtime)))"
proof -
  have a: "model_validate McDonaldsBase (RDict [(''address'', example_address)]) example_runtime
     = (Inr (VModel ''McDonaldsBase''
               [(''address'', example_address_instance), (''menu'', VList [])] [''address'']),
        example_runtime)"
    by (simp add: location_defs example_address_valid0)
  have r: "model_validate McDonaldsRead (RDict [(''address'', example_address)]) example_runtime
     = (Inr (VModel ''McDonaldsRead''
          [(''address'', example_address_instance), (''menu'', VList []), (''id'', VUuid 1),
           (''created_at'', VDatetime (Naive 1000)), (''updated_at'', VDatetime (Naive 1001))]
          [''address'']),
        example_runtime\<lparr>uuid4_calls := Suc 0, utcnow_calls := Suc (Suc 0)\<rparr>)"
    by (simp add: location_defs example_address_valid0 example_runtime_simps)
  have i: "map_of [(''address'', example_address)] ''id'' = None" by simp
  from McDonalds_id_only_on_Read [OF a] a r i show ?thesis by auto
qed

section \<open>Location: the default of the address\<close>

text \<open>
  Claim C5. Every validated or default-constructed Location instance embeds exactly one
  Address in \<^verbatim>\<open>address\<close>. The class declares
  \<^verbatim>\<open>address: AddressBase = Field(default_factory=list)\<close>; defaults are not validated, so a
  Location built from a payload without \<^verbatim>\<open>address\<close> holds the empty list there, which is
  a collection and not an Address.
\<close>

theorem McDonaldsBase_default_address_is_list:
  "fst (model_validate McDonaldsBase (RDict []) example_runtime)
     = Inr (VModel ''McDonaldsBase'' [(''address'', VList []), (''menu'', VList [])] [])"
  by (simp add: McDonaldsBase_def McDonaldsBase_fields_def model_validate_def)

section \<open>Item: the name\<close>

text \<open>
  \<^verbatim>\<open>name: str = Field(...)\<close> carries no length constraint: the empty string is text and
  validates.
\<close>

theorem ItemBase_empty_name_counterexample:
  "fst (model_validate ItemBase (RDict [(''name'', RStr '''')]) example_runtime)
     = Inr (VModel ''ItemBase''
             [(''id'', VUuid 1), (''name'', VStr ''''), (''ingredients'', VList [])]
                  [''name''])"
  by (simp add: class_defs example_runtime_def)
text \<open>
  Claim C6, as amended. An Item's name is required text: a payload without \<^verbatim>\<open>name\<close> fails
  with a \<^verbatim>\<open>missing\<close> error at \<^verbatim>\<open>name\<close>, a payload whose \<^verbatim>\<open>name\<close> is not text fails with a
  \<^verbatim>\<open>string_type\<close> error at \<^verbatim>\<open>name\<close>, and any text, the empty string included, is
  accepted and kept as the name.
\<close>

theorem ItemBase_name_required_text:
  "(map_of p ''name'' = None
      \<longrightarrow> (\<exists>es. fst (model_validate ItemBase (RDict p) w) = Inl es
             \<and> ErrorDetails [Key ''name''] missing (RDict p) \<in> set es))
   \<and> (\<forall>v. map_of p ''name'' = Some v \<longrightarrow> (\<forall>s. v \<noteq> RStr s)
      \<longrightarrow> (\<exists>es. fst (model_validate ItemBase (RDict p) w) = Inl es
             \<and> ErrorDetails [Key ''name''] string_type v \<in> set es))
   \<and> (\<forall>s inst w'. map_of p ''name'' = Some (RStr s)
      \<longrightarrow> model_validate ItemBase (RDict p) w = (Inr inst, w')
      \<longrightarrow> getattr inst ''name'' = Some (VStr s))
   \<and> (\<forall>s. map_of p ''name'' = Some (RStr s) \<longrightarrow> map_of p ''id'' = None
      \<longrightarrow> map_of p ''ingredients'' = None
      \<longrightarrow> fst (model_validate ItemBase (RDict p) w)
          = Inr (VModel ''ItemBase''
                  [(''id'', VUuid (uuid4_values w (uuid4_calls w))),
                   (''name'', VStr s), (''ingredients'', VList [])]
                  [''name'']))"
proof (intro conjI allI impI)
  assume "map_of p ''name'' = None"
  then show "\<exists>es. fst (model_validate ItemBase (RDict p) w) = Inl es
             \<and> ErrorDetails [Key ''name''] missing (RDict p) \<in> set es"
    by (auto simp: model_validate_dict ItemBase_def ItemBase_fields_def
        simp del: validate.simps split: prod.splits sum.splits option.splits)
next
  fix v assume "map_of p ''name'' = Some v" "\<forall>s. v \<noteq> RStr s"
  then show "\<exists>es. fst (model_validate ItemBase (RDict p) w) = Inl es
             \<and> ErrorDetails [Key ''name''] string_type v \<in> set es"
    by (auto simp: model_validate_dict ItemBase_def ItemBase_fields_def validate_str_not_text
        simp del: validate.simps split: prod.splits sum.splits option.splits)
next
  fix s inst w'
  assume n: "map_of p ''name'' = Some (RStr s)"
    and v: "model_validate ItemBase (RDict p) w = (Inr inst, w')"
  from model_validate_InrD [OF v [unfolded ItemBase_def]] obtain out st where
    a: "validate_fields ItemBase_fields [] p w = (([], out), w')"
    and inst: "inst = VModel ''ItemBase'' out st"
    by blast
  from a [unfolded ItemBase_fields_def] obtain y1 wa o1 where
    1: "out = (''id'', y1) # o1"
    and r1: "validate_fields
               [Field ''name'' T_str Required,
                Field ''ingredients'' (T_list T_str) (Default_factory F_list)] [] p wa
             = (([], o1), w')"
    by (blast dest: validate_fields_Cons_InrD)
  from r1 obtain y2 wb o2 where
    2: "o1 = (''name'', y2) # o2"
    and v2: "case map_of p ''name'' of
               Some v \<Rightarrow> validate T_str ([] @ [Key ''name'']) v wa = (Inr y2, wb)
             | None \<Rightarrow> get_default Required ([] @ [Key ''name'']) p wa = (Inr y2, wb)"
    by (blast dest: validate_fields_Cons_InrD)
  from v2 n have "y2 = VStr s" by simp
  with 1 2 inst show "getattr inst ''name'' = Some (VStr s)" by simp
next
  fix s
  assume "map_of p ''name'' = Some (RStr s)" "map_of p ''id'' = None"
    "map_of p ''ingredients'' = None"
  then show "fst (model_validate ItemBase (RDict p) w)
          = Inr (VModel ''ItemBase''
                  [(''id'', VUuid (uuid4_values w (uuid4_calls w))),
                   (''name'', VStr s), (''ingredients'', VList [])]
                  [''name''])"
    by (simp add: class_defs)
qed
theorem ItemBase_name_required_text_witness:
  "map_of ([] :: (string \<times> raw) list) ''name'' = None
   \<and> fst (model_validate ItemBase (RDict []) example_runtime)
       = Inl [ErrorDetails [Key ''name''] missing (RDict [])]
   \<and> map_of [(''name'', RInt 5)] ''name'' = Some (RInt 5)
   \<and> fst (model_validate ItemBase (RDict [(''name'', RInt 5)]) example_runtime)
       = Inl [ErrorDetails [Key ''name''] string_type (RInt 5)]
   \<and> map_of [(''name'', RStr '''')] ''name'' = Some (RStr '''')
   \<and> fst (model_validate ItemBase (RDict [(''name'', RStr '''')]) example_runtime)
       = Inr (VModel ''ItemBase''
               [(''id'', VUuid 1), (''name'', VStr ''''), (''ingredients'', VList [])]
                  [''name''])"
proof -
  have 1: "fst (model_validate ItemBase (RDict []) example_runtime)
       = Inl [ErrorDetails [Key ''name''] missing (RDict [])]"
    by (simp add: class_defs)
  have 2: "fst (model_validate ItemBase (RDict [(''name'', RInt 5)]) example_runtime)
       = Inl [ErrorDetails [Key ''name''] string_type (RInt 5)]"
    by (simp add: class_defs)
  from ItemBase_name_required_text [of "[(''name'', RStr '''')]" example_runtime]
  have 3: "fst (model_validate ItemBase (RDict [(''name'', RStr '''')]) example_runtime)
       = Inr (VModel ''ItemBase''
               [(''id'', VUuid 1), (''name'', VStr ''''), (''ingredients'', VList [])]
                  [''name''])"
    by (simp add: example_runtime_simps)
  from 1 2 3 show ?thesis by simp
qed

section \<open>Location: what the Update variant does with omitted fields\<close>

text \<open>
  An instance records which fields the payload supplied. The empty update and the update
  that clears the menu give the same field values, but not the same instance: only the
  second has \<^verbatim>\<open>menu\<close> in its \<^verbatim>\<open>model_fields_set\<close>.
\<close>

theorem McDonaldsUpdate_omission_counterexample:
  "fst (model_validate McDonaldsUpdate (RDict []) example_runtime)
     = Inr (VModel ''McDonaldsUpdate'' [(''address'', VNone), (''menu'', VList [])] [])
   \<and> fst (model_validate McDonaldsUpdate (RDict [(''menu'', RList [])]) example_runtime)
     = Inr (VModel ''McDonaldsUpdate'' [(''address'', VNone), (''menu'', VList [])] [''menu''])
   \<and> fst (model_validate McDonaldsUpdate (RDict []) example_runtime)
     \<noteq> fst (model_validate McDonaldsUpdate (RDict [(''menu'', RList [])]) example_runtime)"
  by (simp add: location_defs)

text \<open>
  Claim C10, as amended. Within the Location Update variant the two fields have
  different omission defaults. A payload that omits \<^verbatim>\<open>address\<close> validates exactly when
  its \<^verbatim>\<open>menu\<close>, if supplied, is valid, and the instance has \<^verbatim>\<open>address = None\<close>. A payload
  that omits \<^verbatim>\<open>menu\<close> validates exactly when its \<^verbatim>\<open>address\<close>, if supplied, is valid, and
  the instance has \<^verbatim>\<open>menu = []\<close>, the field values of the instance validated from the
  same payload with \<^verbatim>\<open>menu\<close> given as the empty list. In both cases the omitted field is
  not in the \<^verbatim>\<open>model_fields_set\<close> of the instance, whereas a supplied \<^verbatim>\<open>menu\<close> is: the
  field values do not tell an omitted menu from a cleared one, \<^verbatim>\<open>model_fields_set\<close> does.
\<close>

theorem McDonaldsUpdate_omission_defaults:
  "(map_of p ''address'' = None
      \<longrightarrow> (validates McDonaldsUpdate (RDict p) w
            \<longleftrightarrow> (\<forall>x. map_of p ''menu'' = Some x
                  \<longrightarrow> (\<exists>y w1. validate (T_optional (T_list ItemBase)) [Key ''menu''] x w
                               = (Inr y, w1))))
        \<and> (\<forall>inst w'. model_validate McDonaldsUpdate (RDict p) w = (Inr inst, w')
              \<longrightarrow> getattr inst ''address'' = Some VNone
                \<and> ''address'' \<notin> set (model_fields_set inst)))
   \<and> (map_of p ''menu'' = None
      \<longrightarrow> (validates McDonaldsUpdate (RDict p) w
            \<longleftrightarrow> (\<forall>x. map_of p ''address'' = Some x
                  \<longrightarrow> (\<exists>y w1. validate (T_optional AddressBase) [Key ''address''] x w
                               = (Inr y, w1))))
        \<and> (\<forall>inst w'. model_validate McDonaldsUpdate (RDict p) w = (Inr inst, w')
              \<longrightarrow> getattr inst ''menu'' = Some (VList [])
                \<and> ''menu'' \<notin> set (model_fields_set inst)
                \<and> (\<exists>st. model_validate McDonaldsUpdate (RDict ((''menu'', RList []) # p)) w
                           = (Inr (VModel ''McDonaldsUpdate'' (model_fields inst) st), w')
                        \<and> ''menu'' \<in> set st)))
   \<and> (map_of p ''address'' = None \<longrightarrow> map_of p ''menu'' = None
      \<longrightarrow> model_validate McDonaldsUpdate (RDict p) w
          = (Inr (VModel ''McDonaldsUpdate'' [(''address'', VNone), (''menu'', VList [])] []),
             w))"
proof (intro conjI allI impI)
  assume a: "map_of p ''address'' = None"
  show "validates McDonaldsUpdate (RDict p) w
            \<longleftrightarrow> (\<forall>x. map_of p ''menu'' = Some x
                  \<longrightarrow> (\<exists>y w1. validate (T_optional (T_list ItemBase)) [Key ''menu''] x w
                               = (Inr y, w1)))"
  proof (cases "map_of p ''menu''")
    case None
    with a show ?thesis
      by (simp add: validates_dict McDonaldsUpdate_def McDonaldsUpdate_fields_def)
  next
    case (Some x)
    obtain r w1 where r: "validate (T_optional (T_list ItemBase)) [Key ''menu''] x w = (r, w1)"
      by (metis prod.exhaust)
    from validate_error_nonempty(1) r have "r \<noteq> Inl []" by blast
    with a Some r show ?thesis
      by (cases r)
        (simp_all add: validates_dict McDonaldsUpdate_def McDonaldsUpdate_fields_def
          del: validate.simps)
  qed
next
  fix inst w'
  assume a: "map_of p ''address'' = None"
    and v: "model_validate McDonaldsUpdate (RDict p) w = (Inr inst, w')"
  from model_validate_InrD [OF v [unfolded McDonaldsUpdate_def]] obtain out where
    f: "validate_fields McDonaldsUpdate_fields [] p w = (([], out), w')"
    and inst: "inst = VModel ''McDonaldsUpdate'' out
                 (filter (\<lambda>name. map_of p name \<noteq> None) (map field_name McDonaldsUpdate_fields))"
    by blast
  from f [unfolded McDonaldsUpdate_fields_def] obtain y wa o1 where
    out: "out = (''address'', y) # o1"
    and d: "case map_of p ''address'' of
               Some v \<Rightarrow> validate (T_optional AddressBase) ([] @ [Key ''address'']) v w = (Inr y, wa)
             | None \<Rightarrow> get_default (Default VNone) ([] @ [Key ''address'']) p w = (Inr y, wa)"
    by (blast dest: validate_fields_Cons_InrD)
  from d a have "y = VNone" by simp
  then show "getattr inst ''address'' = Some VNone"
    by (simp add: inst out)
  from a show "''address'' \<notin> set (model_fields_set inst)"
    by (simp add: inst McDonaldsUpdate_fields_def)
next
  assume m: "map_of p ''menu'' = None"
  show "validates McDonaldsUpdate (RDict p) w
            \<longleftrightarrow> (\<forall>x. map_of p ''address'' = Some x
                  \<longrightarrow> (\<exists>y w1. validate (T_optional AddressBase) [Key ''address''] x w
                               = (Inr y, w1)))"
  proof (cases "map_of p ''address''")
    case None
    with m show ?thesis
      by (simp add: validates_dict McDonaldsUpdate_def McDonaldsUpdate_fields_def)
  next
    case (Some x)
    obtain r w1 where r: "validate (T_optional AddressBase) [Key ''address''] x w = (r, w1)"
      by (metis prod.exhaust)
    from validate_error_nonempty(1) r have "r \<noteq> Inl []" by blast
    with m Some r show ?thesis
      by (cases r)
        (simp_all add: validates_dict McDonaldsUpdate_def McDonaldsUpdate_fields_def
          del: validate.simps)
  qed
next
  fix inst w'
  assume m: "map_of p ''menu'' = None"
    and v: "model_validate McDonaldsUpdate (RDict p) w = (Inr inst, w')"
  from model_validate_InrD [OF v [unfolded McDonaldsUpdate_def]] obtain out where
    f: "validate_fields McDonaldsUpdate_fields [] p w = (([], out), w')"
    and inst: "inst = VModel ''McDonaldsUpdate'' out
                 (filter (\<lambda>name. map_of p name \<noteq> None) (map field_name McDonaldsUpdate_fields))"
    by blast
  from f [unfolded McDonaldsUpdate_fields_def] obtain y wa o1 where
    out: "out = (''address'', y) # o1"
    and r1: "validate_fields
               [Field ''menu'' (T_optional (T_list ItemBase)) (Default_factory F_list)] [] p wa
             = (([], o1), w')"
    and d: "case map_of p ''address'' of
               Some v \<Rightarrow> validate (T_optional AddressBase) ([] @ [Key ''address'']) v w = (Inr y, wa)
             | None \<Rightarrow> get_default (Default VNone) ([] @ [Key ''address'']) p w = (Inr y, wa)"
    by (blast dest: validate_fields_Cons_InrD)
  from r1 m have o1: "o1 = [(''menu'', VList [])]" and wa: "wa = w'" by simp_all
  have step: "(case map_of ((''menu'', RList []) # p) ''address'' of
               Some v \<Rightarrow> validate (T_optional AddressBase) ([] @ [Key ''address'']) v w
             | None \<Rightarrow> get_default (Default VNone) ([] @ [Key ''address''])
                         ((''menu'', RList []) # p) w) = (Inr y, wa)"
    using d by (cases "map_of p ''address''") (simp_all del: validate.simps)
  have "validate_fields McDonaldsUpdate_fields [] ((''menu'', RList []) # p) w = (([], out), w')"
    unfolding McDonaldsUpdate_fields_def validate_fields.simps step
    by (simp add: out o1 wa)
  then show "\<exists>st. model_validate McDonaldsUpdate (RDict ((''menu'', RList []) # p)) w
                           = (Inr (VModel ''McDonaldsUpdate'' (model_fields inst) st), w')
                        \<and> ''menu'' \<in> set st"
    by (simp add: McDonaldsUpdate_def model_validate_dict inst McDonaldsUpdate_fields_def)
  show "getattr inst ''menu'' = Some (VList [])"
    by (simp add: inst out o1)
  from m show "''menu'' \<notin> set (model_fields_set inst)"
    by (simp add: inst McDonaldsUpdate_fields_def)
next
  assume "map_of p ''address'' = None" "map_of p ''menu'' = None"
  then show "model_validate McDonaldsUpdate (RDict p) w
          = (Inr (VModel ''McDonaldsUpdate'' [(''address'', VNone), (''menu'', VList [])] []),
             w)"
    by (simp add: McDonaldsUpdate_def McDonaldsUpdate_fields_def model_validate_def)
qed

theorem McDonaldsUpdate_omission_defaults_witness:
  "map_of [(''menu'', RList [RDict [(''name'', RStr ''Big Mac'')]])] ''address'' = None
   \<and> validates McDonaldsUpdate
        (RDict [(''menu'', RList [RDict [(''name'', RStr ''Big Mac'')]])]) example_runtime
   \<and> model_validate McDonaldsUpdate
        (RDict [(''menu'', RList [RDict [(''name'', RStr ''Big Mac'')]])]) example_runtime
     = (Inr (VModel ''McDonaldsUpdate''
          [(''address'', VNone),
           (''menu'', VList [VModel ''ItemBase''
              [(''id'', VUuid 1), (''name'', VStr ''Big Mac''), (''ingredients'', VList [])]
              [''name'']])]
          [''menu'']),
        example_runtime\<lparr>uuid4_calls := Suc 0\<rparr>)
   \<and> map_of [(''address'', example_address)] ''menu'' = None
   \<and> validates McDonaldsUpdate (RDict [(''address'', example_address)]) example_runtime
   \<and> model_validate McDonaldsUpdate (RDict [(''address'', example_address)]) example_runtime
     = (Inr (VModel ''McDonaldsUpdate''
          [(''address'', example_address_instance), (''menu'', VList [])] [''address'']),
        example_runtime)
   \<and> model_validate McDonaldsUpdate
        (RDict [(''menu'', RList []), (''address'', example_address)]) example_runtime
     = (Inr (VModel ''McDonaldsUpdate''
          [(''address'', example_address_instance), (''menu'', VList [])]
          [''address'', ''menu'']),
        example_runtime)
   \<and> model_validate McDonaldsUpdate (RDict []) example_runtime
     = (Inr (VModel ''McDonaldsUpdate'' [(''address'', VNone), (''menu'', VList [])] []),
        example_runtime)"
proof -
  note t = McDonaldsUpdate_omission_defaults
  have a1: "map_of [(''menu'', RList [RDict [(''name'', RStr ''Big Mac'')]])] ''address'' = None"
    by simp
  have m1: "validate (T_optional (T_list ItemBase)) [Key ''menu'']
              (RList [RDict [(''name'', RStr ''Big Mac'')]]) example_runtime
            = (Inr (VList [VModel ''ItemBase''
                 [(''id'', VUuid 1), (''name'', VStr ''Big Mac''), (''ingredients'', VList [])]
                 [''name'']]),
               example_runtime\<lparr>uuid4_calls := Suc 0\<rparr>)"
    by (simp add: ItemBase_def ItemBase_fields_def example_runtime_def)
  have e1: "model_validate McDonaldsUpdate
        (RDict [(''menu'', RList [RDict [(''name'', RStr ''Big Mac'')]])]) example_runtime
     = (Inr (VModel ''McDonaldsUpdate''
          [(''address'', VNone),
           (''menu'', VList [VModel ''ItemBase''
              [(''id'', VUuid 1), (''name'', VStr ''Big Mac''), (''ingredients'', VList [])]
              [''name'']])]
          [''menu'']),
        example_runtime\<lparr>uuid4_calls := Suc 0\<rparr>)"
    by (simp add: McDonaldsUpdate_def McDonaldsUpdate_fields_def model_validate_dict m1
        del: validate.simps)
  have a2: "map_of [(''address'', example_address)] ''menu'' = None" by simp
  have m2: "validate (T_optional AddressBase) [Key ''address''] example_address example_runtime
            = (Inr example_address_instance, example_runtime)"
    using example_address_valid0 [of "[Key ''address'']"] by (simp add: example_address_def)
  have e2: "model_validate McDonaldsUpdate (RDict [(''address'', example_address)])
              example_runtime
     = (Inr (VModel ''McDonaldsUpdate''
          [(''address'', example_address_instance), (''menu'', VList [])] [''address'']),
        example_runtime)"
    by (simp add: McDonaldsUpdate_def McDonaldsUpdate_fields_def model_validate_dict m2
        del: validate.simps)
  from t [of "[(''menu'', RList [RDict [(''name'', RStr ''Big Mac'')]])]" example_runtime] m1
  have v1: "validates McDonaldsUpdate
        (RDict [(''menu'', RList [RDict [(''name'', RStr ''Big Mac'')]])]) example_runtime"
    by (simp del: validate.simps)
  from t [of "[(''address'', example_address)]" example_runtime] m2
  have v2: "validates McDonaldsUpdate (RDict [(''address'', example_address)]) example_runtime"
    by (simp del: validate.simps)
  have m3: "validate (T_optional (T_list ItemBase)) [Key ''menu''] (RList []) example_runtime
            = (Inr (VList []), example_runtime)"
    by simp
  from t [of "[(''address'', example_address)]" example_runtime,
          THEN conjunct2, THEN conjunct1, rule_format, OF a2, THEN conjunct2, rule_format,
          OF e2]
  have s2: "model_validate McDonaldsUpdate
        (RDict [(''menu'', RList []), (''address'', example_address)]) example_runtime
     = (Inr (VModel ''McDonaldsUpdate''
          [(''address'', example_address_instance), (''menu'', VList [])]
          [''address'', ''menu'']),
        example_runtime)"
    by (simp add: McDonaldsUpdate_def McDonaldsUpdate_fields_def model_validate_dict m2 m3
        del: validate.simps)
  from t [of "[]" example_runtime]
  have e3: "model_validate McDonaldsUpdate (RDict []) example_runtime
     = (Inr (VModel ''McDonaldsUpdate'' [(''address'', VNone), (''menu'', VList [])] []),
        example_runtime)"
    by simp
  from a1 v1 e1 a2 v2 e2 s2 e3 show ?thesis by (intro conjI)
qed

end
